theory Spec2Isabelle
  imports Complex_Main "HOL-Library.AList"
begin

section \<open>Grade prediction and course recommendation: the model\<close>

text \<open>
  The definitions below embed \<^verbatim>\<open>backend/app/ml/predict.py\<close> (the classes
  \<^verbatim>\<open>GradePredictor\<close> and \<^verbatim>\<open>CourseRecommender\<close>) and the tail of the
  \<^verbatim>\<open>/predict-grade\<close> handler of \<^verbatim>\<open>backend/app/main.py\<close>.

  Conventions of the embedding:
  \<^item> Python floats are modelled by \<^typ>\<open>real\<close>, without NaN or infinity. Comparisons,
    \<^verbatim>\<open>max\<close>, \<^verbatim>\<open>min\<close> and \<^verbatim>\<open>np.clip\<close> are exact in floating point too. The
    arithmetic of the collaborative score (lines 108-110) is rounded to double precision
    after every operation (\<open>round_double\<close>), since the value of that score is what a
    property is about; sums, products and quotients elsewhere are idealised.
  \<^item> Student and course identifiers are strings.
  \<^item> A Python \<^verbatim>\<open>dict\<close> that the code builds is an association list in insertion
    order; \<^verbatim>\<open>d[k] = v\<close> is \<^const>\<open>AList.update\<close> (an existing key keeps its
    position, a new key goes last) and lookup is \<^const>\<open>map_of\<close>. The feature
    dictionary the caller passes in is only read, so it is a map.
  \<^item> Exceptions are values of \<open>py_error + 'a\<close>.
\<close>

subsection \<open>Python and numpy primitives\<close>

datatype py_error = KeyError | IndexError | ValueError

definition dict_get :: "('k \<rightharpoonup> 'v) \<Rightarrow> 'k \<Rightarrow> 'v \<Rightarrow> 'v" where
  "dict_get d k dflt = (case d k of None \<Rightarrow> dflt | Some v \<Rightarrow> v)"

definition np_clip :: "real \<Rightarrow> real \<Rightarrow> real \<Rightarrow> real" where
  "np_clip x lo hi = min (max x lo) hi"

definition np_mean :: "real list \<Rightarrow> real" where
  "np_mean xs = sum_list xs / real (length xs)"

definition np_std :: "real list \<Rightarrow> real" where
  "np_std xs = sqrt (np_mean (map (\<lambda>x. (x - np_mean xs)\<^sup>2) xs))"

text \<open>
  Python's \<^verbatim>\<open>round(x, ndigits)\<close> rounds to the nearest multiple of
  \<open>10 ^ (- ndigits)\<close>, a tie going to the even neighbour.
\<close>

definition round_half_even :: "real \<Rightarrow> int" where
  "round_half_even x =
     (let f = \<lfloor>x\<rfloor>; d = x - of_int f
      in if d < 1 / 2 then f else if 1 / 2 < d then f + 1 else if even f then f else f + 1)"

definition py_round :: "real \<Rightarrow> nat \<Rightarrow> real" where
  "py_round x ndigits = of_int (round_half_even (x * 10 ^ ndigits)) / 10 ^ ndigits"

text \<open>
  The result of a floating-point operation: the real result rounded to the nearest double
  (53 significant bits), a tie going to the even significand. The exponent range is not
  bounded, so there is no overflow and no gradual underflow; grades and similarities are
  far from both.
\<close>

definition round_double :: "real \<Rightarrow> real" where
  "round_double x =
     (if x = 0 then 0
      else (let e = \<lfloor>log 2 \<bar>x\<bar>\<rfloor>; ulp = 2 powi (e - 52)
            in of_int (round_half_even (x / ulp)) * ulp))"

text \<open>
  Python's \<^verbatim>\<open>sum\<close> over floats: the additions are done from left to right, each
  rounded. The first one adds the initial integer 0 to the first element, which is exact.
\<close>

fun py_sum :: "real list \<Rightarrow> real" where
  "py_sum [] = 0"
| "py_sum (x # xs) = foldl (\<lambda>acc y. round_double (acc + y)) x xs"

subsection \<open>GradePredictor\<close>

text \<open>
  The artifact loaded by \<^verbatim>\<open>GradePredictor.__init__\<close>. The regression model and the
  scaler are opaque objects: \<open>model_predict\<close> is \<^verbatim>\<open>self.model.predict(X)[0]\<close> on a
  one-row input, \<open>scaler_transform\<close> is \<^verbatim>\<open>self.scaler.transform\<close> on that row.
  \<open>has_get_booster\<close> is \<^verbatim>\<open>hasattr(self.model, 'get_booster')\<close> and
  \<open>n_estimators\<close> is the attribute of the same name; \<^verbatim>\<open>hasattr(self.model, 'predict')\<close>
  holds of a model whose \<^verbatim>\<open>predict\<close> has just been called. The model is
  deterministic, so the repeated calls of lines 43-45 return the same value.
\<close>

record grade_predictor =
  model_predict :: "real list \<Rightarrow> real"
  scaler_transform :: "real list \<Rightarrow> real list"
  feature_names :: "string list"
  has_get_booster :: bool
  n_estimators :: int

text \<open>The loop of lines 30-32: one value per trained feature name, in that order.\<close>

fun feature_values :: "string list \<Rightarrow> (string \<rightharpoonup> real) \<Rightarrow> real list" where
  "feature_values [] features = []"
| "feature_values (feat_name # rest) features =
     dict_get features feat_name 0 # feature_values rest features"

definition predict :: "grade_predictor \<Rightarrow> (string \<rightharpoonup> real) \<Rightarrow> real \<times> real" where
  "predict gp features =
     (let X = feature_values (feature_names gp) features;
          X_scaled = scaler_transform gp X;
          pred = np_clip (model_predict gp X_scaled) 0 4;
          std_dev =
            (if has_get_booster gp then
               (let leaf_preds =
                      replicate (nat (min 10 (n_estimators gp))) (model_predict gp X_scaled)
                in if 1 < length leaf_preds then np_std leaf_preds else 0.2)
             else 0.2);
          confidence_interval = 1.96 * std_dev
      in (pred, confidence_interval))"

subsection \<open>The predict-grade response\<close>

fun grade_to_letter :: "real \<Rightarrow> string" where
  "grade_to_letter grade =
     (if grade \<ge> 3.7 then ''A''
      else if grade \<ge> 3.3 then ''A-''
      else if grade \<ge> 3.0 then ''B+''
      else if grade \<ge> 2.7 then ''B''
      else if grade \<ge> 2.3 then ''B-''
      else if grade \<ge> 2.0 then ''C+''
      else if grade \<ge> 1.7 then ''C''
      else if grade \<ge> 1.3 then ''C-''
      else if grade \<ge> 1.0 then ''D''
      else ''F'')"

record predict_grade_response =
  predicted_grade :: real
  confidence_interval :: real
  grade_range_lower :: real
  grade_range_upper :: real
  letter_grade :: string

text \<open>
  The handler from the call of \<^verbatim>\<open>grade_predictor.predict(features)\<close> on; the feature
  dictionary is assembled from the stored records before that.
\<close>

definition predict_grade :: "grade_predictor \<Rightarrow> (string \<rightharpoonup> real) \<Rightarrow> predict_grade_response" where
  "predict_grade gp features =
     (case predict gp features of
        (predicted, ci) \<Rightarrow>
          (let lower_bound = max 0 (predicted - ci);
               upper_bound = min 4 (predicted + ci)
           in \<lparr> predicted_grade = py_round predicted 2,
                confidence_interval = py_round ci 2,
                grade_range_lower = py_round lower_bound 2,
                grade_range_upper = py_round upper_bound 2,
                letter_grade = grade_to_letter predicted \<rparr>))"

text \<open>
  The breakpoint table as the specification words it: pairs of an inclusive lower bound
  and a letter, read top-down, the first match winning, \<open>F\<close> when none matches.
\<close>

definition breakpoint_table :: "(real \<times> string) list" where
  "breakpoint_table =
     [(3.7, ''A''), (3.3, ''A-''), (3.0, ''B+''), (2.7, ''B''), (2.3, ''B-''),
      (2.0, ''C+''), (1.7, ''C''), (1.3, ''C-''), (1.0, ''D'')]"

fun first_match :: "(real \<times> string) list \<Rightarrow> string \<Rightarrow> real \<Rightarrow> string" where
  "first_match [] dflt g = dflt"
| "first_match ((bound, letter) # rest) dflt g =
     (if bound \<le> g then letter else first_match rest dflt g)"

subsection \<open>pandas and scikit-learn primitives\<close>

text \<open>
  A \<^verbatim>\<open>DataFrame\<close> is its row labels, its column labels and the cell at every pair
  of labels; labels are taken to be unique, as \<^verbatim>\<open>pivot_table\<close> and a frame built
  over one index make them. \<^verbatim>\<open>df.loc[r, c]\<close> raises \<^verbatim>\<open>KeyError\<close> for a label that
  is not there, and so does \<^verbatim>\<open>df[c]\<close>. A \<^verbatim>\<open>Series\<close> is the list of its labelled
  values in index order.
\<close>

record dataframe =
  df_index :: "string list"
  df_columns :: "string list"
  df_cell :: "string \<Rightarrow> string \<Rightarrow> real"

definition loc :: "dataframe \<Rightarrow> string \<Rightarrow> string \<Rightarrow> py_error + real" where
  "loc df r c =
     (if r \<in> set (df_index df) \<and> c \<in> set (df_columns df) then Inr (df_cell df r c)
      else Inl KeyError)"

definition getitem_column :: "dataframe \<Rightarrow> string \<Rightarrow> py_error + (string \<times> real) list" where
  "getitem_column df c =
     (if c \<in> set (df_columns df) then Inr (map (\<lambda>r. (r, df_cell df r c)) (df_index df))
      else Inl KeyError)"

text \<open>
  \<^verbatim>\<open>Series.nlargest(n)\<close> with the default \<^verbatim>\<open>keep='first'\<close>: the \<open>n\<close> largest values
  in descending order, equal values in their order of appearance; nothing when
  \<open>n \<le> 0\<close>. That is a prefix of the stable descending sort.
\<close>

definition nlargest :: "int \<Rightarrow> (string \<times> 'a::linordered_idom) list \<Rightarrow> (string \<times> 'a) list" where
  "nlargest n s = take (nat n) (sort_key (\<lambda>p. - snd p) s)"

text \<open>The slice \<^verbatim>\<open>xs[:n]\<close>; a negative \<open>n\<close> counts from the end.\<close>

definition py_slice_to :: "'a list \<Rightarrow> int \<Rightarrow> 'a list" where
  "py_slice_to xs n = (if 0 \<le> n then take (nat n) xs else take (length xs - nat (- n)) xs)"

text \<open>A dictionary built by assigning the pairs one after the other.\<close>

definition dict_of_pairs :: "('k \<times> 'v) list \<Rightarrow> ('k \<times> 'v) list" where
  "dict_of_pairs kvs = foldl (\<lambda>d kv. AList.update (fst kv) (snd kv) d) [] kvs"

text \<open>
  A two-dimensional numeric array: its shape and its entries. The model follows the
  dense array; what \<^verbatim>\<open>mean(axis=0)\<close> of a sparse matrix is, and whether
  \<^verbatim>\<open>cosine_similarity\<close> accepts it, depends on the version of the libraries.
\<close>

record ndarray =
  nrows :: nat
  ncols :: nat
  entry :: "nat \<Rightarrow> nat \<Rightarrow> real"

definition row :: "ndarray \<Rightarrow> nat \<Rightarrow> real list" where
  "row m i = map (entry m i) [0..<ncols m]"

definition mean_axis0 :: "ndarray \<Rightarrow> nat list \<Rightarrow> real list" where
  "mean_axis0 m idxs = map (\<lambda>j. np_mean (map (\<lambda>i. entry m i j) idxs)) [0..<ncols m]"

text \<open>
  scikit-learn's \<^verbatim>\<open>cosine_similarity\<close> of two rows: both are divided by their
  Euclidean norm, a zero norm being replaced by 1, and the dot product is taken.
\<close>

definition l2_norm :: "real list \<Rightarrow> real" where
  "l2_norm v = sqrt (sum_list (map (\<lambda>x. x * x) v))"

definition normalize_row :: "real list \<Rightarrow> real list" where
  "normalize_row v = (let n = l2_norm v in map (\<lambda>x. x / (if n = 0 then 1 else n)) v)"

definition cosine_similarity :: "real list \<Rightarrow> real list \<Rightarrow> real" where
  "cosine_similarity a b = sum_list (map2 (*) (normalize_row a) (normalize_row b))"

subsection \<open>CourseRecommender\<close>

text \<open>
  The dictionary \<^verbatim>\<open>course_features\<close>: its entry \<^verbatim>\<open>'course_ids'\<close> and its entry
  \<^verbatim>\<open>'features'\<close> (here \<open>features_matrix\<close>), row \<open>i\<close> of the matrix belonging to the
  \<open>i\<close>-th course identifier.
\<close>

record course_feature_table =
  course_ids :: "string list"
  features_matrix :: ndarray

record recommender =
  user_item_matrix :: dataframe
  user_similarity :: dataframe
  course_features :: course_feature_table

text \<open>
  Line 91: the labels of the \<open>k + 1\<close> largest entries of the student's column of the
  similarity matrix, without the first of them.
\<close>

definition similar_users :: "recommender \<Rightarrow> string \<Rightarrow> int \<Rightarrow> py_error + string list" where
  "similar_users rec student_id k =
     (case getitem_column (user_similarity rec) student_id of
        Inl e \<Rightarrow> Inl e
      | Inr s \<Rightarrow> Inr (drop 1 (map fst (nlargest (k + 1) s))))"

text \<open>
  The inner loop of lines 98-105: the positive ratings of the similar users for one
  course, each with the similarity of its user to the student.
\<close>

fun neighbor_ratings ::
  "recommender \<Rightarrow> string \<Rightarrow> string \<Rightarrow> string list \<Rightarrow> py_error + (real list \<times> real list)" where
  "neighbor_ratings rec student_id course_id [] = Inr ([], [])"
| "neighbor_ratings rec student_id course_id (similar_user # rest) =
     (case loc (user_item_matrix rec) similar_user course_id of
        Inl e \<Rightarrow> Inl e
      | Inr rating \<Rightarrow>
          if 0 < rating then
            (case loc (user_similarity rec) student_id similar_user of
               Inl e \<Rightarrow> Inl e
             | Inr similarity \<Rightarrow>
                 (case neighbor_ratings rec student_id course_id rest of
                    Inl e \<Rightarrow> Inl e
                  | Inr (ratings, similarities) \<Rightarrow>
                      Inr (rating # ratings, similarity # similarities)))
          else neighbor_ratings rec student_id course_id rest)"

text \<open>
  Lines 107-112: the score of one course from the collected ratings. The products, the
  two sums and the quotient are floating-point operations, each rounded to a double.
\<close>

definition weighted_score :: "real list \<Rightarrow> real list \<Rightarrow> real" where
  "weighted_score similar_user_ratings similarities =
     (if similar_user_ratings \<noteq> [] then
        (let weighted_sum =
               py_sum (map2 (\<lambda>r s. round_double (r * s)) similar_user_ratings similarities);
             similarity_sum = py_sum similarities
         in if 0 < similarity_sum then round_double (weighted_sum / similarity_sum) else 0)
      else 0)"

text \<open>The outer loop of lines 94-112 over the columns of the user-item matrix.\<close>

fun score_courses ::
  "recommender \<Rightarrow> string \<Rightarrow> string list \<Rightarrow> string list \<Rightarrow> (string \<times> real) list
     \<Rightarrow> py_error + (string \<times> real) list" where
  "score_courses rec student_id sim_users [] scores = Inr scores"
| "score_courses rec student_id sim_users (course_id # rest) scores =
     (case loc (user_item_matrix rec) student_id course_id of
        Inl e \<Rightarrow> Inl e
      | Inr own \<Rightarrow>
          if 0 < own then score_courses rec student_id sim_users rest scores
          else
            (case neighbor_ratings rec student_id course_id sim_users of
               Inl e \<Rightarrow> Inl e
             | Inr (ratings, similarities) \<Rightarrow>
                 score_courses rec student_id sim_users rest
                   (AList.update course_id (weighted_score ratings similarities) scores)))"

definition get_collaborative_scores ::
  "recommender \<Rightarrow> string \<Rightarrow> int \<Rightarrow> py_error + (string \<times> real) list" where
  "get_collaborative_scores rec student_id k =
     (if student_id \<notin> set (df_index (user_item_matrix rec)) then Inr []
      else
        (case similar_users rec student_id k of
           Inl e \<Rightarrow> Inl e
         | Inr sim_users \<Rightarrow>
             score_courses rec student_id sim_users (df_columns (user_item_matrix rec)) []))"

text \<open>
  Lines 146-149: the loop over \<^verbatim>\<open>enumerate(course_ids)\<close>; reading the similarity
  vector past its end raises \<^verbatim>\<open>IndexError\<close>.
\<close>

fun content_loop ::
  "(nat \<times> string) list \<Rightarrow> string list \<Rightarrow> real list \<Rightarrow> (string \<times> real) list
     \<Rightarrow> py_error + (string \<times> real) list" where
  "content_loop [] enrolled_courses similarities scores = Inr scores"
| "content_loop ((i, course_id) # rest) enrolled_courses similarities scores =
     (if course_id \<notin> set enrolled_courses then
        (if i < length similarities then
           content_loop rest enrolled_courses similarities
             (AList.update course_id (similarities ! i) scores)
         else Inl IndexError)
      else content_loop rest enrolled_courses similarities scores)"

definition flat_scores :: "string list \<Rightarrow> (string \<times> real) list" where
  "flat_scores cids = dict_of_pairs (map (\<lambda>course_id. (course_id, 0.5)) cids)"

text \<open>
  \<^verbatim>\<open>get_content_based_scores\<close>. Selecting a row that the feature matrix does not have
  raises \<^verbatim>\<open>IndexError\<close>; scikit-learn rejects a matrix without columns with
  \<^verbatim>\<open>ValueError\<close>. The student identifier is not used.
\<close>

definition get_content_based_scores ::
  "recommender \<Rightarrow> string \<Rightarrow> string list \<Rightarrow> py_error + (string \<times> real) list" where
  "get_content_based_scores rec student_id enrolled_courses =
     (let cids = course_ids (course_features rec);
          feats = features_matrix (course_features rec)
      in if enrolled_courses = [] then Inr (flat_scores cids)
         else
           (let enrolled_indices = filter (\<lambda>i. cids ! i \<in> set enrolled_courses) [0..<length cids]
            in if enrolled_indices = [] then Inr (flat_scores cids)
               else if list_ex (\<lambda>i. nrows feats \<le> i) enrolled_indices then Inl IndexError
               else if ncols feats = 0 then Inl ValueError
               else
                 (let avg_student_profile = mean_axis0 feats enrolled_indices;
                      similarities =
                        map (\<lambda>i. cosine_similarity avg_student_profile (row feats i)) [0..<nrows feats]
                  in content_loop (zip [0..<length cids] cids) enrolled_courses similarities [])))"

text \<open>Lines 179-188: the loop over the candidate courses.\<close>

definition hybrid_score :: "real \<Rightarrow> real \<Rightarrow> real \<Rightarrow> real \<Rightarrow> real" where
  "hybrid_score cf_weight cb_weight cf_score cb_score =
     (let cf_score_norm = (if 0 < cf_score then cf_score / 4.0 else 0);
          cb_score_norm = cb_score
      in cf_weight * cf_score_norm + cb_weight * cb_score_norm)"

fun hybrid_loop ::
  "(string \<times> real) list \<Rightarrow> (string \<times> real) list \<Rightarrow> real \<Rightarrow> real \<Rightarrow> string list
     \<Rightarrow> (string \<times> real) list \<Rightarrow> (string \<times> real) list" where
  "hybrid_loop cf_scores cb_scores cf_weight cb_weight [] hybrid_scores = hybrid_scores"
| "hybrid_loop cf_scores cb_scores cf_weight cb_weight (course_id # rest) hybrid_scores =
     (let cf_score = dict_get (map_of cf_scores) course_id 0;
          cb_score = dict_get (map_of cb_scores) course_id 0
      in hybrid_loop cf_scores cb_scores cf_weight cb_weight rest
           (AList.update course_id (hybrid_score cf_weight cb_weight cf_score cb_score)
              hybrid_scores))"

text \<open>
  \<^verbatim>\<open>recommend\<close>. The order in which Python iterates over the set
  \<^verbatim>\<open>all_courses\<close> is not fixed by the language; it is the parameter \<open>set_order\<close>,
  applied to the distinct keys of both mappings. \<^verbatim>\<open>sorted(..., reverse=True)\<close> is
  stable. The collaborative scorer is called with its default \<open>k = 10\<close>.
\<close>

definition iteration_order :: "(string list \<Rightarrow> string list) \<Rightarrow> bool" where
  "iteration_order set_order =
     (\<forall>xs. distinct xs \<longrightarrow> distinct (set_order xs) \<and> set (set_order xs) = set xs)"

definition default_k :: int where
  "default_k = 10"

definition recommend ::
  "recommender \<Rightarrow> (string list \<Rightarrow> string list) \<Rightarrow> string \<Rightarrow> string list \<Rightarrow> int \<Rightarrow> real \<Rightarrow> real
     \<Rightarrow> py_error + (string \<times> real) list" where
  "recommend rec set_order student_id enrolled_courses n cf_weight cb_weight =
     (case get_collaborative_scores rec student_id default_k of
        Inl e \<Rightarrow> Inl e
      | Inr cf_scores \<Rightarrow>
          (case get_content_based_scores rec student_id enrolled_courses of
             Inl e \<Rightarrow> Inl e
           | Inr cb_scores \<Rightarrow>
               (let all_courses = set_order (remdups (map fst cf_scores @ map fst cb_scores));
                    hybrid_scores = hybrid_loop cf_scores cb_scores cf_weight cb_weight all_courses [];
                    sorted_recommendations = sort_key (\<lambda>x. - snd x) hybrid_scores
                in Inr (py_slice_to sorted_recommendations n))))"

definition default_n :: int where
  "default_n = 10"

definition default_cf_weight :: real where
  "default_cf_weight = 0.6"

definition default_cb_weight :: real where
  "default_cb_weight = 0.4"

text \<open>Lines 198-202: \<^verbatim>\<open>get_popular_courses\<close>.\<close>

definition course_popularity :: "dataframe \<Rightarrow> (string \<times> int) list" where
  "course_popularity df =
     map (\<lambda>c. (c, int (length (filter (\<lambda>r. 0 < df_cell df r c) (df_index df))))) (df_columns df)"

definition get_popular_courses :: "recommender \<Rightarrow> int \<Rightarrow> string list" where
  "get_popular_courses rec n = map fst (nlargest n (course_popularity (user_item_matrix rec)))"

subsection \<open>Notions used to state the properties\<close>

text \<open>
  The training script builds the similarity matrix over the index of the user-item
  matrix, for its rows and its columns alike; then no lookup of the collaborative scorer
  can miss.
\<close>

definition similarity_aligned :: "recommender \<Rightarrow> bool" where
  "similarity_aligned rec \<longleftrightarrow>
     set (df_index (user_similarity rec)) = set (df_index (user_item_matrix rec)) \<and>
     set (df_columns (user_similarity rec)) = set (df_index (user_item_matrix rec))"

text \<open>The similar users with a positive rating for a course, and the score they give it.\<close>

definition contributing :: "recommender \<Rightarrow> string \<Rightarrow> string list \<Rightarrow> string list" where
  "contributing rec course_id sim_users =
     filter (\<lambda>u. 0 < df_cell (user_item_matrix rec) u course_id) sim_users"

definition course_score :: "recommender \<Rightarrow> string \<Rightarrow> string list \<Rightarrow> string \<Rightarrow> real" where
  "course_score rec sid sim_users cid =
     weighted_score (map (\<lambda>u. df_cell (user_item_matrix rec) u cid) (contributing rec cid sim_users))
       (map (\<lambda>u. df_cell (user_similarity rec) sid u) (contributing rec cid sim_users))"

text \<open>
  The number of positive cells of a course column, which is what \<^verbatim>\<open>get_popular_courses\<close>
  ranks by, and the number of non-zero cells, which the specification names.
\<close>

definition positive_count :: "dataframe \<Rightarrow> string \<Rightarrow> int" where
  "positive_count df c = int (length (filter (\<lambda>r. 0 < df_cell df r c) (df_index df)))"

definition nonzero_count :: "dataframe \<Rightarrow> string \<Rightarrow> int" where
  "nonzero_count df c = int (length (filter (\<lambda>r. df_cell df r c \<noteq> 0) (df_index df)))"

text \<open>
  The neighbour selection as the specification words it: the \<open>k\<close> most similar students
  other than the student, by similarity, descending.
\<close>

definition top_k_others :: "recommender \<Rightarrow> string \<Rightarrow> int \<Rightarrow> py_error + string list" where
  "top_k_others rec student_id k =
     (case getitem_column (user_similarity rec) student_id of
        Inl e \<Rightarrow> Inl e
      | Inr s \<Rightarrow> Inr (map fst (nlargest k (filter (\<lambda>p. fst p \<noteq> student_id) s))))"

subsection \<open>A small artifact for concrete evaluation\<close>

text \<open>
  Four students and two courses. \<open>ana\<close> and \<open>ben\<close> completed \<open>c1\<close> with the same
  grade, \<open>cy\<close> completed both courses, and \<open>dee\<close> completed courses with grade 0 only,
  so that row is all zero. The similarity matrix is symmetric; every cell is a double
  (0.625 stands for the cosine \<open>3 / sqrt 21.25\<close> of the rows of \<open>ana\<close> and \<open>cy\<close>).
\<close>

definition example_ratings :: dataframe where
  "example_ratings =
     \<lparr> df_index = [''ana'', ''ben'', ''cy'', ''dee''],
       df_columns = [''c1'', ''c2''],
       df_cell = (\<lambda>r c. dict_get (map_of
          [((''ana'', ''c1''), 3), ((''ben'', ''c1''), 3), ((''cy'', ''c1''), 3), ((''cy'', ''c2''), 3.5)]) (r, c) 0) \<rparr>"

definition example_similarity :: dataframe where
  "example_similarity =
     \<lparr> df_index = [''ana'', ''ben'', ''cy'', ''dee''],
       df_columns = [''ana'', ''ben'', ''cy'', ''dee''],
       df_cell = (\<lambda>r c. dict_get (map_of
          [((''ana'', ''ana''), 1), ((''ana'', ''ben''), 1), ((''ana'', ''cy''), 0.625),
           ((''ben'', ''ana''), 1), ((''ben'', ''ben''), 1), ((''ben'', ''cy''), 0.625),
           ((''cy'', ''ana''), 0.625), ((''cy'', ''ben''), 0.625), ((''cy'', ''cy''), 1)]) (r, c) 0) \<rparr>"

definition example_features :: course_feature_table where
  "example_features =
     \<lparr> course_ids = [''c1'', ''c2''],
       features_matrix = \<lparr> nrows = 2, ncols = 2, entry = (\<lambda>i j. if i = j then 1 else 0) \<rparr> \<rparr>"

definition example_recommender :: recommender where
  "example_recommender =
     \<lparr> user_item_matrix = example_ratings, user_similarity = example_similarity,
       course_features = example_features \<rparr>"

text \<open>
  Two students who completed \<open>c1\<close> with grade 3.5; \<open>cy\<close> also completed \<open>c2\<close> with
  3.5. The similarity of the two is the cosine of their rows as scikit-learn computes it
  in doubles, \<open>3.5 / sqrt 24.5\<close>, which is the double \<open>0.7071067811865476\<close>.
\<close>

definition rounding_recommender :: recommender where
  "rounding_recommender =
     \<lparr> user_item_matrix =
         \<lparr> df_index = [''ana'', ''cy''], df_columns = [''c1'', ''c2''],
           df_cell = (\<lambda>r c. if c = ''c2'' \<and> r = ''ana'' then 0 else 3.5) \<rparr>,
       user_similarity =
         \<lparr> df_index = [''ana'', ''cy''], df_columns = [''ana'', ''cy''],
           df_cell = (\<lambda>r c. if r = c then 1 else 6369051672525773 / 9007199254740992) \<rparr>,
       course_features = example_features \<rparr>"

text \<open>
  A matrix in which both courses have one positive cell, and one in which a column has
  negative cells.
\<close>

definition tied_ratings :: dataframe where
  "tied_ratings =
     \<lparr> df_index = [''ana''], df_columns = [''c1'', ''c2''], df_cell = (\<lambda>r c. 3) \<rparr>"

definition signed_ratings :: dataframe where
  "signed_ratings =
     \<lparr> df_index = [''ana'', ''ben''], df_columns = [''c1'', ''c2''],
       df_cell = (\<lambda>r c. if c = ''c1'' then - 1 else if r = ''ana'' then 3 else 0) \<rparr>"

text \<open>A grade predictor over two features, with an identity scaler.\<close>

definition example_predictor :: grade_predictor where
  "example_predictor =
     \<lparr> model_predict = (\<lambda>xs. sum_list xs / 2), scaler_transform = (\<lambda>xs. xs),
       feature_names = [''credits'', ''year''], has_get_booster = False, n_estimators = 0 \<rparr>"

section \<open>Properties of the grade predictor\<close>

lemma np_clip_bounds: "lo \<le> hi \<Longrightarrow> lo \<le> np_clip x lo hi \<and> np_clip x lo hi \<le> hi"
  by (simp add: np_clip_def)

lemma np_std_nonneg: "0 \<le> np_std xs"
proof -
  have "0 \<le> sum_list (map (\<lambda>x. (x - np_mean xs)\<^sup>2) xs)"
    by (rule sum_list_nonneg) auto
  then have "0 \<le> np_mean (map (\<lambda>x. (x - np_mean xs)\<^sup>2) xs)"
    by (simp add: np_mean_def)
  then show ?thesis
    by (simp add: np_std_def)
qed

lemma predict_fst: "fst (predict gp features) =
    np_clip (model_predict gp (scaler_transform gp (feature_values (feature_names gp) features))) 0 4"
  by (simp add: predict_def Let_def)

lemma predict_snd_nonneg: "0 \<le> snd (predict gp features)"
  by (simp add: predict_def Let_def np_std_nonneg)

lemma round_half_even_mono: "x \<le> y \<Longrightarrow> round_half_even x \<le> round_half_even y"
proof -
  assume le: "x \<le> y"
  have fl: "\<lfloor>x\<rfloor> \<le> \<lfloor>y\<rfloor>"
    using le by (rule floor_mono)
  show ?thesis
  proof (cases "\<lfloor>x\<rfloor> = \<lfloor>y\<rfloor>")
    case True
    with le show ?thesis
      by (auto simp: round_half_even_def Let_def)
  next
    case False
    with fl have lt: "\<lfloor>x\<rfloor> + 1 \<le> \<lfloor>y\<rfloor>"
      by simp
    have a: "round_half_even x \<le> \<lfloor>x\<rfloor> + 1"
      by (simp add: round_half_even_def Let_def)
    have b: "\<lfloor>y\<rfloor> \<le> round_half_even y"
      by (simp add: round_half_even_def Let_def)
    from a lt b show ?thesis
      by linarith
  qed
qed

lemma round_half_even_of_int: "round_half_even (of_int n) = n"
  by (simp add: round_half_even_def Let_def)

lemma py_round_mono: "x \<le> y \<Longrightarrow> py_round x n \<le> py_round y n"
  unfolding py_round_def
  by (intro divide_right_mono round_half_even_mono mult_right_mono)
    (simp_all add: round_half_even_mono)

lemma py_round_0: "py_round 0 n = 0"
  using round_half_even_of_int [of 0] by (simp add: py_round_def)

lemma py_round_4: "py_round 4 2 = 4"
proof -
  have "round_half_even (4 * 10\<^sup>2) = 400"
    using round_half_even_of_int [of 400] by simp
  then show ?thesis
    by (simp add: py_round_def)
qed

lemma py_round_within_gpa: "0 \<le> x \<Longrightarrow> x \<le> 4 \<Longrightarrow> 0 \<le> py_round x 2 \<and> py_round x 2 \<le> 4"
  using py_round_mono [of 0 x 2] py_round_mono [of x 4 2] by (simp add: py_round_0 py_round_4)

text \<open>
  Claim C1. For every feature dictionary the point estimate returned by
  \<open>predict\<close> is the raw model output clamped to \<open>[0, 4]\<close>, so it lies in that
  range; the interval half-width is never negative, so the unrounded bounds
  \<open>max 0 (p - ci)\<close> and \<open>min 4 (p + ci)\<close> enclose the estimate; and in the response of
  the predict-grade handler \<open>lower \<le> predicted_grade \<le> upper\<close> with both bounds in
  \<open>[0, 4]\<close>.
\<close>

theorem predict_clamped_and_grade_range_encloses:
  "fst (predict gp features) =
     np_clip (model_predict gp (scaler_transform gp (feature_values (feature_names gp) features))) 0 4
   \<and> 0 \<le> fst (predict gp features) \<and> fst (predict gp features) \<le> 4
   \<and> max 0 (fst (predict gp features) - snd (predict gp features)) \<le> fst (predict gp features)
   \<and> fst (predict gp features) \<le> min 4 (fst (predict gp features) + snd (predict gp features))
   \<and> grade_range_lower (predict_grade gp features) \<le> predicted_grade (predict_grade gp features)
   \<and> predicted_grade (predict_grade gp features) \<le> grade_range_upper (predict_grade gp features)
   \<and> 0 \<le> grade_range_lower (predict_grade gp features)
   \<and> grade_range_lower (predict_grade gp features) \<le> 4
   \<and> 0 \<le> grade_range_upper (predict_grade gp features)
   \<and> grade_range_upper (predict_grade gp features) \<le> 4"
proof -
  obtain p ci where pc: "predict gp features = (p, ci)"
    by (cases "predict gp features")
  have p_eq: "p = np_clip (model_predict gp (scaler_transform gp (feature_values (feature_names gp) features))) 0 4"
    using predict_fst [of gp features] pc by simp
  have p0: "0 \<le> p" and p4: "p \<le> 4"
    using np_clip_bounds [of 0 4] p_eq by simp_all
  have ci0: "0 \<le> ci"
    using predict_snd_nonneg [of gp features] pc by simp
  have lo_le: "max 0 (p - ci) \<le> p" and le_up: "p \<le> min 4 (p + ci)"
    using p0 p4 ci0 by simp_all
  have lo0: "0 \<le> max 0 (p - ci)" and lo4: "max 0 (p - ci) \<le> 4"
    using p4 ci0 by simp_all
  have up0: "0 \<le> min 4 (p + ci)" and up4: "min 4 (p + ci) \<le> 4"
    using p0 ci0 by simp_all
  have r: "predict_grade gp features =
      \<lparr> predicted_grade = py_round p 2, confidence_interval = py_round ci 2,
        grade_range_lower = py_round (max 0 (p - ci)) 2,
        grade_range_upper = py_round (min 4 (p + ci)) 2,
        letter_grade = grade_to_letter p \<rparr>"
    by (simp add: predict_grade_def pc Let_def)
  show ?thesis
    unfolding r pc
    using p_eq p0 p4 lo_le le_up py_round_mono [OF lo_le, of 2] py_round_mono [OF le_up, of 2]
      py_round_within_gpa [OF lo0 lo4] py_round_within_gpa [OF up0 up4]
    by simp
qed

text \<open>
  Claim C2, as the code has it. The letter is a function of the point estimate alone and
  equals the first match of the breakpoint table read top-down with inclusive lower
  bounds, \<open>F\<close> when nothing matches; it maps 3.7 to \<open>A\<close> and 2.0 to \<open>C+\<close>, and it maps
  3.65 to \<open>A-\<close> (3.65 lies in the band from 3.3 up to, not including, 3.7).
\<close>

theorem grade_to_letter_breakpoints:
  "grade_to_letter g = first_match breakpoint_table ''F'' g
   \<and> grade_to_letter 3.7 = ''A'' \<and> grade_to_letter 2.0 = ''C+''
   \<and> grade_to_letter 3.65 = ''A-''"
  by (simp add: breakpoint_table_def)

text \<open>The claim as written has 3.65 map to \<open>B+\<close>; the code returns \<open>A-\<close> there.\<close>

theorem grade_to_letter_365_counterexample:
  "grade_to_letter 3.65 \<noteq> ''B+'' \<and> grade_to_letter 3.65 = ''A-''"
  by simp

lemma feature_values_map:
  "feature_values names features = map (\<lambda>name. dict_get features name 0) names"
  by (induction names) simp_all

lemma predict_cong:
  assumes "feature_values (feature_names gp) f = feature_values (feature_names gp) g"
  shows "predict gp f = predict gp g"
  using assms by (simp add: predict_def)

text \<open>
  Claim C9. The vector handed to the scaler has one entry per trained feature name, the
  \<open>i\<close>-th entry being the dictionary's value at the \<open>i\<close>-th name, or 0 when the
  dictionary has no such key; \<open>predict\<close> is total, and two dictionaries that agree
  (after the default) on every trained name give the same prediction.
\<close>

theorem predict_reads_features_by_name_in_order:
  "length (feature_values (feature_names gp) features) = length (feature_names gp)
   \<and> (\<forall>i < length (feature_names gp).
         feature_values (feature_names gp) features ! i =
           (case features (feature_names gp ! i) of None \<Rightarrow> 0 | Some v \<Rightarrow> v))
   \<and> predict gp features =
       (let X_scaled = scaler_transform gp (map (\<lambda>name. dict_get features name 0) (feature_names gp));
            raw = model_predict gp X_scaled
        in (np_clip raw 0 4,
            1.96 * (if has_get_booster gp \<and> 1 < nat (min 10 (n_estimators gp))
                    then np_std (replicate (nat (min 10 (n_estimators gp))) raw) else 0.2)))
   \<and> ((\<forall>name \<in> set (feature_names gp). dict_get features name 0 = dict_get features' name 0)
        \<longrightarrow> predict gp features = predict gp features')"
proof (intro conjI impI)
  show "length (feature_values (feature_names gp) features) = length (feature_names gp)"
    by (simp add: feature_values_map)
  show "\<forall>i < length (feature_names gp).
         feature_values (feature_names gp) features ! i =
           (case features (feature_names gp ! i) of None \<Rightarrow> 0 | Some v \<Rightarrow> v)"
    by (simp add: feature_values_map dict_get_def)
  show "predict gp features =
       (let X_scaled = scaler_transform gp (map (\<lambda>name. dict_get features name 0) (feature_names gp));
            raw = model_predict gp X_scaled
        in (np_clip raw 0 4,
            1.96 * (if has_get_booster gp \<and> 1 < nat (min 10 (n_estimators gp))
                    then np_std (replicate (nat (min 10 (n_estimators gp))) raw) else 0.2)))"
    by (simp add: predict_def Let_def feature_values_map)
next
  assume "\<forall>name \<in> set (feature_names gp). dict_get features name 0 = dict_get features' name 0"
  then have "feature_values (feature_names gp) features = feature_values (feature_names gp) features'"
    by (simp add: feature_values_map)
  then show "predict gp features = predict gp features'"
    by (rule predict_cong)
qed

lemma example_predict:
  "predict example_predictor [''year'' \<mapsto> 2, ''credits'' \<mapsto> 3] = (2.5, 0.392)"
  "predict example_predictor [''year'' \<mapsto> 2] = (1, 0.392)"
  "predict example_predictor [''year'' \<mapsto> 9, ''age'' \<mapsto> 20] = (4, 0.392)"
  by (simp_all add: predict_def example_predictor_def dict_get_def np_clip_def)

theorem predict_reads_features_by_name_in_order_witness:
  "feature_values (feature_names example_predictor) [''year'' \<mapsto> 2] = [0, 2]
   \<and> feature_values (feature_names example_predictor) [''year'' \<mapsto> 2, ''credits'' \<mapsto> 3] = [3, 2]
   \<and> predict example_predictor [''year'' \<mapsto> 2] = (1, 0.392)
   \<and> predict example_predictor [''year'' \<mapsto> 2, ''credits'' \<mapsto> 3] = (2.5, 0.392)
   \<and> predict example_predictor [''year'' \<mapsto> 2, ''credits'' \<mapsto> 3]
       = predict example_predictor [''credits'' \<mapsto> 3, ''age'' \<mapsto> 20, ''year'' \<mapsto> 2]"
proof -
  note t = predict_reads_features_by_name_in_order [where gp = example_predictor]
  have names: "feature_names example_predictor = [''credits'', ''year'']"
    by (simp add: example_predictor_def)
  have a: "feature_values (feature_names example_predictor) [''year'' \<mapsto> 2] = [0, 2]"
    and b: "feature_values (feature_names example_predictor) [''year'' \<mapsto> 2, ''credits'' \<mapsto> 3] = [3, 2]"
    by (simp_all add: names dict_get_def)
  have "\<forall>name \<in> set (feature_names example_predictor).
      dict_get [''year'' \<mapsto> 2, ''credits'' \<mapsto> 3] name (0::real)
        = dict_get [''credits'' \<mapsto> 3, ''age'' \<mapsto> 20, ''year'' \<mapsto> 2] name 0"
    by (simp add: names dict_get_def)
  with t [where features = "[''year'' \<mapsto> 2, ''credits'' \<mapsto> 3]"
      and features' = "[''credits'' \<mapsto> 3, ''age'' \<mapsto> 20, ''year'' \<mapsto> 2]"]
  have c: "predict example_predictor [''year'' \<mapsto> 2, ''credits'' \<mapsto> 3]
       = predict example_predictor [''credits'' \<mapsto> 3, ''age'' \<mapsto> 20, ''year'' \<mapsto> 2]"
    by blast
  from a b c example_predict(1,2) show ?thesis
    by blast
qed

section \<open>Properties of the recommender\<close>

subsection \<open>Rounding to double precision\<close>

lemma round_double_0 [simp]: "round_double 0 = 0"
  by (simp add: round_double_def)

lemma round_half_even_nearest:
  assumes "\<bar>y - of_int m\<bar> < 1 / 2"
  shows "round_half_even y = m"
proof (cases "of_int m \<le> y")
  case True
  with assms have "\<lfloor>y\<rfloor> = m"
    by (intro floor_unique) auto
  with assms True show ?thesis
    by (simp add: round_half_even_def Let_def)
next
  case False
  with assms have "\<lfloor>y\<rfloor> = m - 1"
    by (intro floor_unique) auto
  with assms False show ?thesis
    by (simp add: round_half_even_def Let_def)
qed

lemma round_double_in_binade:
  assumes "2 powi e \<le> \<bar>x\<bar>" and "\<bar>x\<bar> < 2 powi (e + 1)"
  shows "round_double x = of_int (round_half_even (x / 2 powi (e - 52))) * 2 powi (e - 52)"
proof -
  have "(0::real) < 2 powi e"
    by simp
  with assms(1) have pos: "0 < \<bar>x\<bar>"
    by linarith
  have "(2::real) powr real_of_int e = 2 powi e"
    by (rule powr_real_of_int') simp_all
  moreover have "(2::real) powr real_of_int (e + 1) = 2 powi (e + 1)"
    by (rule powr_real_of_int') simp_all
  ultimately
  have "2 powr real_of_int e \<le> \<bar>x\<bar> \<and> \<bar>x\<bar> < 2 powr real_of_int (e + 1)"
    using assms by simp
  then have "\<lfloor>log 2 \<bar>x\<bar>\<rfloor> = e"
    using floor_log_eq_powr_iff [of "\<bar>x\<bar>" 2 e] pos by simp
  with pos show ?thesis
    by (simp add: round_double_def Let_def)
qed

lemma round_double_eval:
  assumes "2 powi e \<le> \<bar>x\<bar>" and "\<bar>x\<bar> < 2 powi (e + 1)"
    and "2 powi (e - 52) = u" and "\<bar>x / u - of_int m\<bar> < 1 / 2"
  shows "round_double x = of_int m * u"
  using round_double_in_binade [OF assms(1,2)] round_half_even_nearest [OF assms(4)] assms(3)
  by simp

text \<open>The spacing of the doubles from 2 up to 4 is \<open>2 ^ - 51\<close>.\<close>

lemma ulp_from_2_to_4: "(2::real) powi (1 - 52) = 1 / 2251799813685248"
  by (simp add: power_int_def power_divide)

lemma round_double_exact_values:
  "round_double (35 / 16) = 35 / 16"
  "round_double (7 / 2) = 7 / 2"
  using round_double_eval [of 1 "35 / 16", OF _ _ ulp_from_2_to_4, of 4925812092436480]
    round_double_eval [of 1 "7 / 2", OF _ _ ulp_from_2_to_4, of 7881299347898368]
  by simp_all

text \<open>
  One operation is off by at most half a unit in the last place, so its relative error is
  at most \<open>2 ^ - 53\<close>; a product with 3.5 divided by the other factor is off 3.5 by
  at most one unit in the last place.
\<close>

lemma round_half_even_error: "\<bar>of_int (round_half_even y) - y\<bar> \<le> 1 / 2"
proof -
  have "of_int \<lfloor>y\<rfloor> \<le> y" "y < of_int \<lfloor>y\<rfloor> + 1"
    by linarith+
  then show ?thesis
    by (auto simp: round_half_even_def Let_def)
qed

lemma round_double_error:
  "\<bar>round_double x - x\<bar> \<le> \<bar>x\<bar> / 2 ^ 53"
proof (cases "x = 0")
  case True
  then show ?thesis by simp
next
  case False
  define e where "e = \<lfloor>log 2 \<bar>x\<bar>\<rfloor>"
  define u :: real where "u = 2 powi (e - 52)"
  have upos: "0 < u"
    by (simp add: u_def)
  from False have pos: "0 < \<bar>x\<bar>"
    by simp
  have "(2::real) powr real_of_int e = 2 powi e"
    by (rule powr_real_of_int') simp_all
  moreover have "2 powr real_of_int e \<le> \<bar>x\<bar>"
    using floor_log_eq_powr_iff [of "\<bar>x\<bar>" 2 e] pos by (simp add: e_def)
  ultimately have lo: "2 powi e \<le> \<bar>x\<bar>"
    by simp
  have u53: "u / 2 = 2 powi e / 2 ^ 53"
    by (simp add: u_def power_int_diff)
  have rd: "round_double x = of_int (round_half_even (x / u)) * u"
    using False by (simp add: round_double_def Let_def e_def u_def)
  have "round_double x - x = (of_int (round_half_even (x / u)) - x / u) * u"
    using upos by (simp add: rd field_simps)
  then have "\<bar>round_double x - x\<bar> = \<bar>of_int (round_half_even (x / u)) - x / u\<bar> * u"
    using upos by (simp add: abs_mult)
  also have "\<dots> \<le> 1 / 2 * u"
    using round_half_even_error [of "x / u"] upos by (intro mult_right_mono) simp_all
  also have "\<dots> = 2 powi e / 2 ^ 53"
    using u53 by simp
  also have "\<dots> \<le> \<bar>x\<bar> / 2 ^ 53"
    using lo by (simp add: divide_right_mono)
  finally show ?thesis .
qed

lemma single_neighbour_within_one_ulp:
  assumes "0 < s"
  shows "\<bar>round_double (round_double (3.5 * s) / s) - 3.5\<bar> \<le> 1 / 2 ^ 51"
proof -
  define q where "q = round_double (3.5 * s) / s"
  have "\<bar>round_double (3.5 * s) - 3.5 * s\<bar> \<le> \<bar>3.5 * s\<bar> / 2 ^ 53"
    by (rule round_double_error)
  then have le: "\<bar>round_double (3.5 * s) - 3.5 * s\<bar> / s \<le> (3.5 * s / 2 ^ 53) / s"
    using assms by (intro divide_right_mono) simp_all
  have rhs: "(3.5 * s / 2 ^ 53) / s = 3.5 / 2 ^ 53"
    using assms by simp
  have lhs: "\<bar>round_double (3.5 * s) - 3.5 * s\<bar> / s = \<bar>q - 3.5\<bar>"
  proof -
    have "q - 3.5 = (round_double (3.5 * s) - 3.5 * s) / s"
      using assms by (simp add: q_def field_simps)
    then have "\<bar>q - 3.5\<bar> = \<bar>round_double (3.5 * s) - 3.5 * s\<bar> / \<bar>s\<bar>"
      by (simp only: abs_divide)
    with assms show ?thesis
      by (simp only: abs_of_pos)
  qed
  from le have close: "\<bar>q - 3.5\<bar> \<le> 3.5 / 2 ^ 53"
    unfolding rhs lhs .
  have "(3.5::real) / 2 ^ 53 \<le> 1 / 4"
    by simp
  with close have "\<bar>q - 3.5\<bar> \<le> 1 / 4"
    by linarith
  then have "2 \<le> \<bar>q\<bar>" "\<bar>q\<bar> < 4"
    by linarith+
  then have bin: "2 powi 1 \<le> \<bar>q\<bar>" "\<bar>q\<bar> < 2 powi (1 + 1)"
    by simp_all
  have rd: "round_double q = of_int (round_half_even (q * 2 ^ 51)) / 2 ^ 51"
    using round_double_in_binade [OF bin] by (simp add: ulp_from_2_to_4)
  have "q * 2 ^ 51 - 7881299347898368 = (q - 3.5) * 2 ^ 51"
    by (simp add: algebra_simps)
  then have "\<bar>q * 2 ^ 51 - 7881299347898368\<bar> = \<bar>q - 3.5\<bar> * \<bar>2 ^ 51\<bar>"
    by (simp only: abs_mult)
  moreover have "\<bar>q - 3.5\<bar> * \<bar>2 ^ 51\<bar> \<le> 3.5 / 2 ^ 53 * \<bar>2 ^ 51 :: real\<bar>"
    using close by (rule mult_right_mono) simp
  moreover have "3.5 / 2 ^ 53 * \<bar>2 ^ 51 :: real\<bar> = 7 / 8"
    by simp
  ultimately have "\<bar>q * 2 ^ 51 - 7881299347898368\<bar> \<le> 7 / 8"
    by linarith
  with round_half_even_error [of "q * 2 ^ 51"]
  have "\<bar>real_of_int (round_half_even (q * 2 ^ 51)) - 7881299347898368\<bar> < 2"
    by linarith
  then have "\<bar>round_half_even (q * 2 ^ 51) - 7881299347898368\<bar> \<le> 1"
    by linarith
  then have "\<bar>real_of_int (round_half_even (q * 2 ^ 51)) - 7881299347898368\<bar> \<le> 1"
    by linarith
  then have "\<bar>real_of_int (round_half_even (q * 2 ^ 51)) / 2 ^ 51 - 3.5\<bar> \<le> 1 / 2 ^ 51"
    by (simp add: field_simps abs_le_iff)
  then have "\<bar>round_double q - 3.5\<bar> \<le> 1 / 2 ^ 51"
    unfolding rd .
  then show ?thesis
    unfolding q_def .
qed

lemma py_sum_zeros: "py_sum (map (\<lambda>u. 0) us) = 0"
proof -
  have "foldl (\<lambda>acc y. round_double (acc + y)) 0 (map (\<lambda>u. 0) us) = 0"
    by (induction us) simp_all
  then show ?thesis
    by (cases us) simp_all
qed

subsection \<open>Dictionaries, frames and series\<close>

lemma map_of_foldl_update:
  "map_of (foldl (\<lambda>d kv. AList.update (fst kv) (snd kv) d) acc kvs) k =
     (case map_of (rev kvs) k of None \<Rightarrow> map_of acc k | Some v \<Rightarrow> Some v)"
  by (induction kvs arbitrary: acc) (auto simp: update_conv' map_add_def split: option.splits)

lemma keys_foldl_update:
  "fst ` set (foldl (\<lambda>d kv. AList.update (fst kv) (snd kv) d) acc kvs) = fst ` set acc \<union> fst ` set kvs"
  by (induction kvs arbitrary: acc) (auto simp: dom_update)

lemma distinct_foldl_update:
  "distinct (map fst acc) \<Longrightarrow>
     distinct (map fst (foldl (\<lambda>d kv. AList.update (fst kv) (snd kv) d) acc kvs))"
  by (induction kvs arbitrary: acc) (auto simp: distinct_update)

lemma loc_present:
  "r \<in> set (df_index df) \<Longrightarrow> c \<in> set (df_columns df) \<Longrightarrow> loc df r c = Inr (df_cell df r c)"
  by (simp add: loc_def)

lemma loc_InrD: "loc df r c = Inr v \<Longrightarrow> v = df_cell df r c"
  by (simp add: loc_def split: if_splits)

lemma nlargest_subset: "set (nlargest n s) \<subseteq> set s"
  by (auto simp: nlargest_def dest: in_set_takeD)

lemma length_nlargest: "length (nlargest n s) \<le> nat n"
  by (simp add: nlargest_def)

lemma nlargest_descending: "sorted_wrt (\<lambda>p q. snd q \<le> snd p) (nlargest n s)"
proof -
  have "sorted (map (\<lambda>p. - snd p) (sort_key (\<lambda>p. - snd p) s))"
    by (rule sorted_sort_key)
  then have "sorted_wrt (\<lambda>p q. snd q \<le> snd p) (sort_key (\<lambda>p. - snd p) s)"
    by (simp add: sorted_wrt_map)
  then show ?thesis
    unfolding nlargest_def by (rule sorted_wrt_take)
qed

lemma nlargest_dominates_rest:
  assumes "p \<in> set (nlargest n s)" and "q \<in> set s" and "q \<notin> set (nlargest n s)"
  shows "snd q \<le> snd p"
proof -
  let ?xs = "sort_key (\<lambda>p. - snd p) s"
  have "sorted_wrt (\<lambda>p q. snd q \<le> snd p) ?xs"
    using sorted_sort_key [of "\<lambda>p. - snd p" s] by (simp add: sorted_wrt_map)
  then have "sorted_wrt (\<lambda>p q. snd q \<le> snd p) (take (nat n) ?xs @ drop (nat n) ?xs)"
    by simp
  then have dom: "\<forall>a \<in> set (take (nat n) ?xs). \<forall>b \<in> set (drop (nat n) ?xs). snd b \<le> snd a"
    unfolding sorted_wrt_append by blast
  have "set ?xs = set (take (nat n) ?xs) \<union> set (drop (nat n) ?xs)"
    by (metis append_take_drop_id set_append)
  with assms(2,3) have "q \<in> set (drop (nat n) ?xs)"
    by (auto simp: nlargest_def)
  with dom assms(1) show ?thesis
    by (auto simp: nlargest_def)
qed

lemma sort_key_strict_minimum_first:
  assumes "a \<in> set xs" and "distinct xs" and "\<forall>x \<in> set xs. x \<noteq> a \<longrightarrow> f a < f x"
  shows "sort_key f xs = a # sort_key f (filter (\<lambda>x. x \<noteq> a) xs)"
  using assms
proof (induction xs)
  case Nil
  then show ?case by simp
next
  case (Cons x xs)
  show ?case
  proof (cases "x = a")
    case True
    with Cons.prems have notin: "a \<notin> set xs" and le: "\<forall>y \<in> set xs. f a \<le> f y"
      by (auto simp: less_imp_le)
    from notin have "filter (\<lambda>x. x \<noteq> a) xs = xs"
      by (auto simp: filter_id_conv)
    moreover from le have "insort_key f a (sort_key f xs) = a # sort_key f xs"
      by (intro insort_is_Cons) simp
    ultimately show ?thesis
      using True by simp
  next
    case False
    with Cons.prems have "a \<in> set xs" "distinct xs" "\<forall>y \<in> set xs. y \<noteq> a \<longrightarrow> f a < f y"
      and lt: "f a < f x"
      by auto
    from Cons.IH [OF this(1-3)]
    have ih: "sort_key f xs = a # sort_key f (filter (\<lambda>x. x \<noteq> a) xs)" .
    from lt have "\<not> f x \<le> f a"
      by simp
    with ih False show ?thesis
      by simp
  qed
qed

lemma set_py_slice_to_subset: "set (py_slice_to xs n) \<subseteq> set xs"
  by (auto simp: py_slice_to_def dest: in_set_takeD)

lemma py_slice_to_all: "int (length xs) \<le> n \<Longrightarrow> py_slice_to xs n = xs"
  by (simp add: py_slice_to_def)

lemma length_py_slice_to: "0 \<le> n \<Longrightarrow> int (length (py_slice_to xs n)) \<le> n"
  by (simp add: py_slice_to_def)

subsection \<open>The collaborative scorer\<close>

lemma neighbor_ratings_InrD:
  "neighbor_ratings rec sid cid us = Inr (rs, ss) \<Longrightarrow>
     rs = map (\<lambda>u. df_cell (user_item_matrix rec) u cid) (contributing rec cid us) \<and>
     ss = map (\<lambda>u. df_cell (user_similarity rec) sid u) (contributing rec cid us)"
proof (induction us arbitrary: rs ss)
  case Nil
  then show ?case by (simp add: contributing_def)
next
  case (Cons u us)
  from Cons.prems obtain rating where
    r: "loc (user_item_matrix rec) u cid = Inr rating"
    by (auto split: sum.splits)
  then have rating: "rating = df_cell (user_item_matrix rec) u cid"
    by (rule loc_InrD)
  show ?case
  proof (cases "0 < rating")
    case False
    with Cons.prems r have "neighbor_ratings rec sid cid us = Inr (rs, ss)"
      by simp
    from Cons.IH [OF this] False rating show ?thesis
      by (simp add: contributing_def)
  next
    case True
    with Cons.prems r obtain s rs' ss' where
      s: "loc (user_similarity rec) sid u = Inr s"
      and rest: "neighbor_ratings rec sid cid us = Inr (rs', ss')"
      and eq: "rs = rating # rs'" "ss = s # ss'"
      by (auto split: sum.splits)
    from loc_InrD [OF s] Cons.IH [OF rest] True rating eq show ?thesis
      by (simp add: contributing_def)
  qed
qed

lemma neighbor_ratings_returns:
  assumes "set us \<subseteq> set (df_index (user_item_matrix rec))"
    and "cid \<in> set (df_columns (user_item_matrix rec))"
    and "sid \<in> set (df_index (user_similarity rec))"
    and "set us \<subseteq> set (df_columns (user_similarity rec))"
  shows "\<exists>rs ss. neighbor_ratings rec sid cid us = Inr (rs, ss)"
  using assms
proof (induction us)
  case Nil
  then show ?case by simp
next
  case (Cons u us)
  then obtain rs ss where "neighbor_ratings rec sid cid us = Inr (rs, ss)"
    by auto
  with Cons.prems show ?case
    by (simp add: loc_present)
qed

lemma score_courses_lookup:
  assumes "score_courses rec sid us cs acc = Inr scores"
  shows "map_of scores c =
     (if c \<in> set cs \<and> \<not> 0 < df_cell (user_item_matrix rec) sid c
      then Some (course_score rec sid us c) else map_of acc c)"
  using assms
proof (induction cs arbitrary: acc)
  case Nil
  then show ?case by simp
next
  case (Cons cid cs)
  from Cons.prems obtain own where
    o: "loc (user_item_matrix rec) sid cid = Inr own"
    by (auto split: sum.splits)
  then have own: "own = df_cell (user_item_matrix rec) sid cid"
    by (rule loc_InrD)
  show ?case
  proof (cases "0 < own")
    case True
    with Cons.prems o have "score_courses rec sid us cs acc = Inr scores"
      by simp
    from Cons.IH [OF this] True own show ?thesis
      by auto
  next
    case False
    with Cons.prems o obtain rs ss where
      nr: "neighbor_ratings rec sid cid us = Inr (rs, ss)"
      and rest: "score_courses rec sid us cs (AList.update cid (weighted_score rs ss) acc) = Inr scores"
      by (auto split: sum.splits)
    from neighbor_ratings_InrD [OF nr] have "weighted_score rs ss = course_score rec sid us cid"
      by (simp add: course_score_def)
    with Cons.IH [OF rest] False own show ?thesis
      by (auto simp: update_conv')
  qed
qed

lemma score_courses_keys:
  assumes "score_courses rec sid us cs acc = Inr scores"
  shows "fst ` set scores =
     fst ` set acc \<union> {c \<in> set cs. \<not> 0 < df_cell (user_item_matrix rec) sid c}"
  using assms
proof (induction cs arbitrary: acc)
  case Nil
  then show ?case by simp
next
  case (Cons cid cs)
  from Cons.prems obtain own where
    o: "loc (user_item_matrix rec) sid cid = Inr own"
    by (auto split: sum.splits)
  then have own: "own = df_cell (user_item_matrix rec) sid cid"
    by (rule loc_InrD)
  show ?case
  proof (cases "0 < own")
    case True
    with Cons.prems o have "score_courses rec sid us cs acc = Inr scores"
      by simp
    from Cons.IH [OF this] True own show ?thesis
      by auto
  next
    case False
    with Cons.prems o obtain rs ss where
      rest: "score_courses rec sid us cs (AList.update cid (weighted_score rs ss) acc) = Inr scores"
      by (auto split: sum.splits)
    from Cons.IH [OF rest] False own show ?thesis
      by (auto simp: dom_update)
  qed
qed

lemma score_courses_distinct:
  "score_courses rec sid us cs acc = Inr scores \<Longrightarrow> distinct (map fst acc) \<Longrightarrow>
     distinct (map fst scores)"
proof (induction cs arbitrary: acc)
  case Nil
  then show ?case by simp
next
  case (Cons cid cs)
  from Cons.prems show ?case
    by (auto split: sum.splits if_splits intro: Cons.IH simp: distinct_update)
qed

lemma score_courses_returns:
  assumes "sid \<in> set (df_index (user_item_matrix rec))"
    and "set cs \<subseteq> set (df_columns (user_item_matrix rec))"
    and "set us \<subseteq> set (df_index (user_item_matrix rec))"
    and "sid \<in> set (df_index (user_similarity rec))"
    and "set us \<subseteq> set (df_columns (user_similarity rec))"
  shows "\<exists>scores. score_courses rec sid us cs acc = Inr scores"
  using assms(2)
proof (induction cs arbitrary: acc)
  case Nil
  then show ?case by simp
next
  case (Cons cid cs)
  then have cid: "cid \<in> set (df_columns (user_item_matrix rec))"
    by simp
  from neighbor_ratings_returns [OF assms(3) cid assms(4) assms(5)]
  obtain rs ss where nr: "neighbor_ratings rec sid cid us = Inr (rs, ss)"
    by blast
  from Cons have ih: "\<exists>scores. score_courses rec sid us cs acc' = Inr scores" for acc'
    by simp
  show ?case
    using ih nr by (simp add: loc_present [OF assms(1) cid])
qed

lemma similar_users_Inr_iff:
  "(\<exists>us. similar_users rec sid k = Inr us) \<longleftrightarrow> sid \<in> set (df_columns (user_similarity rec))"
  by (simp add: similar_users_def getitem_column_def)

lemma similar_users_subset:
  assumes "similar_users rec sid k = Inr us"
  shows "set us \<subseteq> set (df_index (user_similarity rec))"
proof -
  from assms have us: "us = drop 1 (map fst (nlargest (k + 1)
      (map (\<lambda>r. (r, df_cell (user_similarity rec) r sid)) (df_index (user_similarity rec)))))"
    by (auto simp: similar_users_def getitem_column_def split: if_splits)
  have "set us \<subseteq> fst ` set (map (\<lambda>r. (r, df_cell (user_similarity rec) r sid)) (df_index (user_similarity rec)))"
    unfolding us nlargest_def
    by (metis (no_types, lifting) set_drop_subset set_take_subset set_map set_sort image_mono subset_trans)
  then show ?thesis
    by (auto simp: image_image)
qed

lemma get_collaborative_scores_returns:
  assumes "similarity_aligned rec"
  shows "\<exists>scores. get_collaborative_scores rec sid k = Inr scores"
proof (cases "sid \<in> set (df_index (user_item_matrix rec))")
  case False
  then show ?thesis by (simp add: get_collaborative_scores_def)
next
  case True
  with assms have "sid \<in> set (df_columns (user_similarity rec))"
    and sidx: "sid \<in> set (df_index (user_similarity rec))"
    by (simp_all add: similarity_aligned_def)
  then obtain us where us: "similar_users rec sid k = Inr us"
    using similar_users_Inr_iff by blast
  from similar_users_subset [OF us] assms
  have a: "set us \<subseteq> set (df_index (user_item_matrix rec))"
    and b: "set us \<subseteq> set (df_columns (user_similarity rec))"
    by (simp_all add: similarity_aligned_def)
  from score_courses_returns [OF True subset_refl a sidx b]
  show ?thesis
    using True us by (simp add: get_collaborative_scores_def)
qed

lemma get_collaborative_scores_InrD:
  assumes "get_collaborative_scores rec sid k = Inr scores"
    and "sid \<in> set (df_index (user_item_matrix rec))"
  shows "\<exists>us. similar_users rec sid k = Inr us \<and>
     score_courses rec sid us (df_columns (user_item_matrix rec)) [] = Inr scores"
  using assms by (auto simp: get_collaborative_scores_def split: sum.splits)

lemma get_collaborative_scores_keys:
  assumes "get_collaborative_scores rec sid k = Inr scores"
  shows "fst ` set scores =
     (if sid \<in> set (df_index (user_item_matrix rec))
      then {c \<in> set (df_columns (user_item_matrix rec)). \<not> 0 < df_cell (user_item_matrix rec) sid c}
      else {})"
proof (cases "sid \<in> set (df_index (user_item_matrix rec))")
  case True
  from get_collaborative_scores_InrD [OF assms True] obtain us where
    "score_courses rec sid us (df_columns (user_item_matrix rec)) [] = Inr scores"
    by blast
  from score_courses_keys [OF this] True show ?thesis
    by simp
next
  case False
  with assms show ?thesis
    by (simp add: get_collaborative_scores_def)
qed

lemma weighted_score_zero_sims: "weighted_score rs (map (\<lambda>u. 0) us) = 0"
  by (simp add: weighted_score_def Let_def py_sum_zeros)

lemmas example_defs =
  example_recommender_def example_ratings_def example_similarity_def example_features_def

lemmas scorer_defs =
  get_collaborative_scores_def similar_users_def getitem_column_def nlargest_def dict_get_def
  loc_def weighted_score_def round_double_exact_values

lemma example_similar_users_ana:
  "similar_users example_recommender ''ana'' 10 = Inr [''ben'', ''cy'', ''dee'']"
  by (simp add: example_defs scorer_defs)

lemma example_similar_users_ben:
  "similar_users example_recommender ''ben'' 10 = Inr [''ben'', ''cy'', ''dee'']"
  by (simp add: example_defs scorer_defs)

lemma example_scores_ana:
  "get_collaborative_scores example_recommender ''ana'' 10 = Inr [(''c2'', 3.5)]"
  by (simp add: example_defs scorer_defs)

lemma example_scores_dee:
  "get_collaborative_scores example_recommender ''dee'' 10 = Inr [(''c1'', 0), (''c2'', 0)]"
  by (simp add: example_defs scorer_defs)

lemma example_aligned: "similarity_aligned example_recommender"
  by (simp add: similarity_aligned_def example_defs)

text \<open>
  Claim C3, as the code has it. For a student whose row of the user-item matrix is present
  and all zero, the collaborative scorer skips no course: when it returns, the mapping
  has exactly one entry for every course column (so it is empty only for a matrix without
  columns), and every score is 0 when the student's row of the similarity matrix is all
  zero, as the cosine of a zero row is. It returns whenever the similarity matrix is
  labelled by the index of the user-item matrix. The empty mapping is what a student
  without a row gets.
\<close>

theorem collaborative_scores_cover_all_zero_row:
  assumes "student_id \<in> set (df_index (user_item_matrix rec))"
    and "\<forall>c \<in> set (df_columns (user_item_matrix rec)). df_cell (user_item_matrix rec) student_id c = 0"
  shows "(similarity_aligned rec \<longrightarrow>
            (\<exists>scores. get_collaborative_scores rec student_id k = Inr scores))
     \<and> (\<forall>scores. get_collaborative_scores rec student_id k = Inr scores \<longrightarrow>
            fst ` set scores = set (df_columns (user_item_matrix rec))
          \<and> distinct (map fst scores)
          \<and> (scores = [] \<longleftrightarrow> df_columns (user_item_matrix rec) = [])
          \<and> ((\<forall>u. df_cell (user_similarity rec) student_id u = 0) \<longrightarrow>
               (\<forall>c \<in> set (df_columns (user_item_matrix rec)). map_of scores c = Some 0)))
     \<and> (\<forall>other. other \<notin> set (df_index (user_item_matrix rec)) \<longrightarrow>
            get_collaborative_scores rec other k = Inr [])"
proof (intro conjI allI impI ballI)
  assume "similarity_aligned rec"
  then show "\<exists>scores. get_collaborative_scores rec student_id k = Inr scores"
    by (rule get_collaborative_scores_returns)
next
  fix other
  assume "other \<notin> set (df_index (user_item_matrix rec))"
  then show "get_collaborative_scores rec other k = Inr []"
    by (simp add: get_collaborative_scores_def)
next
  fix scores
  assume run: "get_collaborative_scores rec student_id k = Inr scores"
  from get_collaborative_scores_InrD [OF run assms(1)] obtain us where
    sc: "score_courses rec student_id us (df_columns (user_item_matrix rec)) [] = Inr scores"
    by blast
  from score_courses_keys [OF sc] assms(2)
  show keys: "fst ` set scores = set (df_columns (user_item_matrix rec))"
    by auto
  from score_courses_distinct [OF sc] show "distinct (map fst scores)"
    by simp
  from keys show "scores = [] \<longleftrightarrow> df_columns (user_item_matrix rec) = []"
    by (metis image_is_empty set_empty)
  fix c
  assume zero: "\<forall>u. df_cell (user_similarity rec) student_id u = 0"
    and c: "c \<in> set (df_columns (user_item_matrix rec))"
  from zero have "course_score rec student_id us c = 0"
    by (simp add: course_score_def weighted_score_zero_sims)
  with score_courses_lookup [OF sc, of c] c assms(2) show "map_of scores c = Some 0"
    by simp
qed

text \<open>
  The claim as written fails for \<open>dee\<close>, whose row is present and all zero: the result
  has two entries.
\<close>

theorem collaborative_scores_all_zero_row_counterexample:
  "''dee'' \<in> set (df_index (user_item_matrix example_recommender))
   \<and> df_cell (user_item_matrix example_recommender) ''dee'' ''c1'' = 0
   \<and> df_cell (user_item_matrix example_recommender) ''dee'' ''c2'' = 0
   \<and> df_columns (user_item_matrix example_recommender) = [''c1'', ''c2'']
   \<and> get_collaborative_scores example_recommender ''dee'' 10 = Inr [(''c1'', 0), (''c2'', 0)]
   \<and> get_collaborative_scores example_recommender ''dee'' 10 \<noteq> Inr []"
  by (simp add: example_scores_dee) (simp add: example_defs dict_get_def)

theorem collaborative_scores_cover_all_zero_row_witness:
  "similarity_aligned example_recommender
   \<and> get_collaborative_scores example_recommender ''dee'' 10 = Inr [(''c1'', 0), (''c2'', 0)]
   \<and> fst ` set [(''c1'', 0::real), (''c2'', 0)] = set (df_columns (user_item_matrix example_recommender))
   \<and> map_of [(''c1'', 0::real), (''c2'', 0)] ''c2'' = Some 0
   \<and> get_collaborative_scores example_recommender ''zed'' 10 = Inr []"
proof -
  have a: "''dee'' \<in> set (df_index (user_item_matrix example_recommender))"
    by (simp add: example_defs)
  have b: "\<forall>c \<in> set (df_columns (user_item_matrix example_recommender)).
      df_cell (user_item_matrix example_recommender) ''dee'' c = 0"
    by (simp add: example_defs dict_get_def)
  show ?thesis
    using collaborative_scores_cover_all_zero_row [OF a b, of 10] example_aligned example_scores_dee
    by (simp add: example_defs)
qed

text \<open>
  Claim C4, as the code has it. For a student with a row and a course of the matrix whose
  cell in that row is not positive, the score is 0 when no similar user has a positive
  rating for the course; otherwise it is the quotient of the sum of rating times
  similarity over those users by the sum of their similarities, every product, partial
  sum and the quotient rounded to a double, when the similarity sum is positive, and 0
  when it is not (so 0 when it is 0). With exactly one such user, of positive similarity
  \<open>s\<close> and rating 3.5, the score is the rounded quotient of the rounded product
  \<open>3.5 * s\<close> by \<open>s\<close>; it is within \<open>2 ^ - 51\<close>, one unit in the last place, of 3.5
  and equals 3.5 when \<open>s = 1\<close>.
\<close>

theorem collaborative_score_is_weighted_average:
  assumes "student_id \<in> set (df_index (user_item_matrix rec))"
    and "course_id \<in> set (df_columns (user_item_matrix rec))"
    and "\<not> 0 < df_cell (user_item_matrix rec) student_id course_id"
  shows "(similarity_aligned rec \<longrightarrow>
            (\<exists>scores. get_collaborative_scores rec student_id k = Inr scores))
     \<and> (\<forall>scores. get_collaborative_scores rec student_id k = Inr scores \<longrightarrow>
          (\<exists>sim_users. similar_users rec student_id k = Inr sim_users \<and>
            (let nbrs = contributing rec course_id sim_users;
                 ratings = map (\<lambda>u. df_cell (user_item_matrix rec) u course_id) nbrs;
                 sims = map (\<lambda>u. df_cell (user_similarity rec) student_id u) nbrs;
                 weighted_sum = py_sum (map2 (\<lambda>r s. round_double (r * s)) ratings sims)
             in map_of scores course_id =
                  Some (if nbrs = [] then 0
                        else if 0 < py_sum sims then round_double (weighted_sum / py_sum sims)
                        else 0)
                \<and> (0 \<le> py_sum sims \<longrightarrow>
                     map_of scores course_id =
                       Some (if nbrs = [] then 0
                             else if py_sum sims = 0 then 0
                             else round_double (weighted_sum / py_sum sims)))
                \<and> (\<forall>u. nbrs = [u] \<and> 0 < df_cell (user_similarity rec) student_id u
                         \<and> df_cell (user_item_matrix rec) u course_id = 3.5
                      \<longrightarrow> map_of scores course_id =
                            Some (round_double
                                    (round_double (3.5 * df_cell (user_similarity rec) student_id u)
                                       / df_cell (user_similarity rec) student_id u))
                        \<and> \<bar>round_double
                               (round_double (3.5 * df_cell (user_similarity rec) student_id u)
                                  / df_cell (user_similarity rec) student_id u) - 3.5\<bar>
                             \<le> 1 / 2 ^ 51)
                \<and> (\<forall>u. nbrs = [u] \<and> df_cell (user_similarity rec) student_id u = 1
                         \<and> df_cell (user_item_matrix rec) u course_id = 3.5
                      \<longrightarrow> map_of scores course_id = Some 3.5))))"
proof (intro conjI allI impI)
  assume "similarity_aligned rec"
  then show "\<exists>scores. get_collaborative_scores rec student_id k = Inr scores"
    by (rule get_collaborative_scores_returns)
next
  fix scores
  assume run: "get_collaborative_scores rec student_id k = Inr scores"
  from get_collaborative_scores_InrD [OF run assms(1)] obtain us where
    us: "similar_users rec student_id k = Inr us"
    and sc: "score_courses rec student_id us (df_columns (user_item_matrix rec)) [] = Inr scores"
    by blast
  let ?nbrs = "contributing rec course_id us"
  let ?rating = "\<lambda>u. df_cell (user_item_matrix rec) u course_id"
  let ?sim = "\<lambda>u. df_cell (user_similarity rec) student_id u"
  let ?ws = "py_sum (map2 (\<lambda>r s. round_double (r * s)) (map ?rating ?nbrs) (map ?sim ?nbrs))"
  let ?ss = "py_sum (map ?sim ?nbrs)"
  from score_courses_lookup [OF sc, of course_id] assms(2,3)
  have look: "map_of scores course_id = Some (course_score rec student_id us course_id)"
    by simp
  have c1: "map_of scores course_id =
      Some (if ?nbrs = [] then 0 else if 0 < ?ss then round_double (?ws / ?ss) else 0)"
    unfolding look by (simp add: course_score_def weighted_score_def Let_def)
  have c2: "0 \<le> ?ss \<longrightarrow> map_of scores course_id =
      Some (if ?nbrs = [] then 0 else if ?ss = 0 then 0 else round_double (?ws / ?ss))"
    unfolding c1 by auto
  have single: "map_of scores course_id = Some (round_double (round_double (?rating u * ?sim u) / ?sim u))"
    if "?nbrs = [u]" and "0 < ?sim u" for u
    unfolding c1 using that by simp
  have c3: "\<forall>u. ?nbrs = [u] \<and> 0 < ?sim u \<and> ?rating u = 3.5 \<longrightarrow>
      map_of scores course_id = Some (round_double (round_double (3.5 * ?sim u) / ?sim u))
      \<and> \<bar>round_double (round_double (3.5 * ?sim u) / ?sim u) - 3.5\<bar> \<le> 1 / 2 ^ 51"
  proof (intro allI impI)
    fix u
    assume h: "?nbrs = [u] \<and> 0 < ?sim u \<and> ?rating u = 3.5"
    then have n: "?nbrs = [u]" and p: "0 < ?sim u" and r: "?rating u = 3.5"
      by blast+
    from single [OF n p]
    have "map_of scores course_id = Some (round_double (round_double (3.5 * ?sim u) / ?sim u))"
      unfolding r .
    with single_neighbour_within_one_ulp [OF p]
    show "map_of scores course_id = Some (round_double (round_double (3.5 * ?sim u) / ?sim u))
      \<and> \<bar>round_double (round_double (3.5 * ?sim u) / ?sim u) - 3.5\<bar> \<le> 1 / 2 ^ 51"
      by (rule conjI [rotated])
  qed
  have c4: "\<forall>u. ?nbrs = [u] \<and> ?sim u = 1 \<and> ?rating u = 3.5 \<longrightarrow>
      map_of scores course_id = Some 3.5"
  proof (intro allI impI)
    fix u
    assume h: "?nbrs = [u] \<and> ?sim u = 1 \<and> ?rating u = 3.5"
    then have n: "?nbrs = [u]" and s: "?sim u = 1" and r: "?rating u = 3.5"
      by blast+
    from s have p: "0 < ?sim u"
      by simp
    have "round_double (round_double (3.5 * 1) / 1) = 3.5"
      by (simp add: round_double_exact_values)
    with single [OF n p] show "map_of scores course_id = Some 3.5"
      unfolding r s by simp
  qed
  have "let nbrs = contributing rec course_id us;
            ratings = map (\<lambda>u. df_cell (user_item_matrix rec) u course_id) nbrs;
            sims = map (\<lambda>u. df_cell (user_similarity rec) student_id u) nbrs;
            weighted_sum = py_sum (map2 (\<lambda>r s. round_double (r * s)) ratings sims)
        in map_of scores course_id =
             Some (if nbrs = [] then 0
                   else if 0 < py_sum sims then round_double (weighted_sum / py_sum sims)
                   else 0)
           \<and> (0 \<le> py_sum sims \<longrightarrow>
                map_of scores course_id =
                  Some (if nbrs = [] then 0
                        else if py_sum sims = 0 then 0
                        else round_double (weighted_sum / py_sum sims)))
           \<and> (\<forall>u. nbrs = [u] \<and> 0 < df_cell (user_similarity rec) student_id u
                    \<and> df_cell (user_item_matrix rec) u course_id = 3.5
                 \<longrightarrow> map_of scores course_id =
                       Some (round_double
                               (round_double (3.5 * df_cell (user_similarity rec) student_id u)
                                  / df_cell (user_similarity rec) student_id u))
                   \<and> \<bar>round_double
                          (round_double (3.5 * df_cell (user_similarity rec) student_id u)
                             / df_cell (user_similarity rec) student_id u) - 3.5\<bar>
                        \<le> 1 / 2 ^ 51)
           \<and> (\<forall>u. nbrs = [u] \<and> df_cell (user_similarity rec) student_id u = 1
                    \<and> df_cell (user_item_matrix rec) u course_id = 3.5
                 \<longrightarrow> map_of scores course_id = Some 3.5)"
    unfolding Let_def by (intro conjI c1 c2 c3 c4)
  with us show "\<exists>sim_users. similar_users rec student_id k = Inr sim_users \<and>
            (let nbrs = contributing rec course_id sim_users;
                 ratings = map (\<lambda>u. df_cell (user_item_matrix rec) u course_id) nbrs;
                 sims = map (\<lambda>u. df_cell (user_similarity rec) student_id u) nbrs;
                 weighted_sum = py_sum (map2 (\<lambda>r s. round_double (r * s)) ratings sims)
             in map_of scores course_id =
                  Some (if nbrs = [] then 0
                        else if 0 < py_sum sims then round_double (weighted_sum / py_sum sims)
                        else 0)
                \<and> (0 \<le> py_sum sims \<longrightarrow>
                     map_of scores course_id =
                       Some (if nbrs = [] then 0
                             else if py_sum sims = 0 then 0
                             else round_double (weighted_sum / py_sum sims)))
                \<and> (\<forall>u. nbrs = [u] \<and> 0 < df_cell (user_similarity rec) student_id u
                         \<and> df_cell (user_item_matrix rec) u course_id = 3.5
                      \<longrightarrow> map_of scores course_id =
                            Some (round_double
                                    (round_double (3.5 * df_cell (user_similarity rec) student_id u)
                                       / df_cell (user_similarity rec) student_id u))
                        \<and> \<bar>round_double
                               (round_double (3.5 * df_cell (user_similarity rec) student_id u)
                                  / df_cell (user_similarity rec) student_id u) - 3.5\<bar>
                             \<le> 1 / 2 ^ 51)
                \<and> (\<forall>u. nbrs = [u] \<and> df_cell (user_similarity rec) student_id u = 1
                         \<and> df_cell (user_item_matrix rec) u course_id = 3.5
                      \<longrightarrow> map_of scores course_id = Some 3.5))"
    by blast
qed

lemma rounding_scores_ana:
  "get_collaborative_scores rounding_recommender ''ana'' 10 =
     Inr [(''c2'', 7881299347898367 / 2251799813685248)]"
proof -
  let ?s = "6369051672525773 / 9007199254740992 :: real"
  have run: "get_collaborative_scores rounding_recommender ''ana'' 10 =
      Inr [(''c2'', round_double (round_double (7 / 2 * ?s) / ?s))]"
    by (simp add: rounding_recommender_def get_collaborative_scores_def similar_users_def
        getitem_column_def nlargest_def loc_def weighted_score_def)
  have prod: "round_double (7 / 2 * ?s) = 5572920213460051 / 2251799813685248"
    using round_double_eval [of 1 "7 / 2 * ?s", OF _ _ ulp_from_2_to_4, of 5572920213460051]
    by simp
  have quot: "round_double (5572920213460051 / 2251799813685248 / ?s) =
      7881299347898367 / 2251799813685248"
    using round_double_eval [of 1 "5572920213460051 / 2251799813685248 / ?s",
        OF _ _ ulp_from_2_to_4, of 7881299347898367]
    by simp
  show ?thesis
    unfolding run prod quot ..
qed

text \<open>
  The claim as written has the score of a single neighbour's 3.5 equal 3.5. For \<open>ana\<close>,
  whose only neighbour \<open>cy\<close> has similarity \<open>0.7071067811865476\<close>, the product rounds
  down and the quotient is the double below 3.5, which prints as \<open>3.4999999999999996\<close>.
\<close>

theorem collaborative_score_rounding_counterexample:
  "''ana'' \<in> set (df_index (user_item_matrix rounding_recommender))
   \<and> df_cell (user_item_matrix rounding_recommender) ''ana'' ''c2'' = 0
   \<and> similar_users rounding_recommender ''ana'' 10 = Inr [''cy'']
   \<and> contributing rounding_recommender ''c2'' [''cy''] = [''cy'']
   \<and> df_cell (user_item_matrix rounding_recommender) ''cy'' ''c2'' = 3.5
   \<and> 0 < df_cell (user_similarity rounding_recommender) ''ana'' ''cy''
   \<and> get_collaborative_scores rounding_recommender ''ana'' 10 =
       Inr [(''c2'', 7881299347898367 / 2251799813685248)]
   \<and> (7881299347898367 / 2251799813685248 :: real) \<noteq> 3.5"
proof -
  have a: "''ana'' \<in> set (df_index (user_item_matrix rounding_recommender))"
    and b: "df_cell (user_item_matrix rounding_recommender) ''ana'' ''c2'' = 0"
    and c: "similar_users rounding_recommender ''ana'' 10 = Inr [''cy'']"
    and d: "contributing rounding_recommender ''c2'' [''cy''] = [''cy'']"
    and e: "df_cell (user_item_matrix rounding_recommender) ''cy'' ''c2'' = 3.5"
    and f: "0 < df_cell (user_similarity rounding_recommender) ''ana'' ''cy''"
    by (simp_all add: rounding_recommender_def similar_users_def getitem_column_def
        nlargest_def contributing_def)
  have g: "(7881299347898367 / 2251799813685248 :: real) \<noteq> 3.5"
    by simp
  from a b c d e f g rounding_scores_ana show ?thesis
    by blast
qed

theorem collaborative_score_is_weighted_average_witness:
  "similarity_aligned example_recommender
   \<and> get_collaborative_scores example_recommender ''ana'' 10 = Inr [(''c2'', 3.5)]
   \<and> similar_users example_recommender ''ana'' 10 = Inr [''ben'', ''cy'', ''dee'']
   \<and> contributing example_recommender ''c2'' [''ben'', ''cy'', ''dee''] = [''cy'']
   \<and> df_cell (user_item_matrix example_recommender) ''cy'' ''c2'' = 3.5
   \<and> df_cell (user_similarity example_recommender) ''ana'' ''cy'' = 0.625
   \<and> round_double (round_double (3.5 * 0.625) / 0.625) = 3.5
   \<and> map_of [(''c2'', 3.5::real)] ''c2'' = Some 3.5"
proof -
  have a: "''ana'' \<in> set (df_index (user_item_matrix example_recommender))"
    and b: "''c2'' \<in> set (df_columns (user_item_matrix example_recommender))"
    and c: "\<not> 0 < df_cell (user_item_matrix example_recommender) ''ana'' ''c2''"
    by (simp_all add: example_defs dict_get_def)
  have d: "contributing example_recommender ''c2'' [''ben'', ''cy'', ''dee''] = [''cy'']"
    and e: "df_cell (user_item_matrix example_recommender) ''cy'' ''c2'' = 3.5"
    and f: "df_cell (user_similarity example_recommender) ''ana'' ''cy'' = 0.625"
    by (simp_all add: contributing_def example_defs dict_get_def)
  have g: "round_double (round_double (3.5 * 0.625) / 0.625) = 3.5"
    by (simp add: round_double_exact_values)
  from collaborative_score_is_weighted_average [OF a b c, of 10, THEN conjunct2, rule_format,
      OF example_scores_ana]
  have "map_of [(''c2'', 3.5::real)] ''c2'' = Some 3.5"
    by simp
  with d e f g example_aligned example_scores_ana example_similar_users_ana show ?thesis
    by blast
qed

text \<open>
  Dropping the first of the \<open>k + 1\<close> largest entries does remove the student when the
  student's own entry is strictly the largest of the column: then line 91 yields the
  \<open>k\<close> most similar other students.
\<close>

lemma similar_users_when_self_strictly_first:
  assumes "student_id \<in> set (df_index (user_similarity rec))"
    and "student_id \<in> set (df_columns (user_similarity rec))"
    and "distinct (df_index (user_similarity rec))"
    and "\<forall>u \<in> set (df_index (user_similarity rec)). u \<noteq> student_id \<longrightarrow>
           df_cell (user_similarity rec) u student_id
             < df_cell (user_similarity rec) student_id student_id"
    and "0 \<le> k"
  shows "similar_users rec student_id k = top_k_others rec student_id k"
    and "\<exists>us. similar_users rec student_id k = Inr us \<and> student_id \<notin> set us"
proof -
  let ?sim = "user_similarity rec"
  let ?s = "map (\<lambda>r. (r, df_cell ?sim r student_id)) (df_index ?sim)"
  let ?a = "(student_id, df_cell ?sim student_id student_id)"
  let ?f = "\<lambda>p :: string \<times> real. - snd p"
  have col: "getitem_column ?sim student_id = Inr ?s"
    using assms(2) by (simp add: getitem_column_def)
  have mem: "?a \<in> set ?s"
    using assms(1) by auto
  have dist: "distinct ?s"
    using assms(3) by (simp add: distinct_map inj_on_def)
  have strict: "\<forall>x \<in> set ?s. x \<noteq> ?a \<longrightarrow> ?f ?a < ?f x"
    using assms(4) by auto
  have others: "filter (\<lambda>x. x \<noteq> ?a) ?s = filter (\<lambda>p. fst p \<noteq> student_id) ?s"
    by (intro filter_cong) auto
  have sorted: "sort_key ?f ?s = ?a # sort_key ?f (filter (\<lambda>p. fst p \<noteq> student_id) ?s)"
    using sort_key_strict_minimum_first [OF mem dist strict] others by simp
  from assms(5) have k: "nat (k + 1) = Suc (nat k)"
    by simp
  have eq: "drop 1 (map fst (nlargest (k + 1) ?s)) =
      map fst (nlargest k (filter (\<lambda>p. fst p \<noteq> student_id) ?s))"
    unfolding nlargest_def sorted k by simp
  have su: "similar_users rec student_id k =
      Inr (map fst (nlargest k (filter (\<lambda>p. fst p \<noteq> student_id) ?s)))"
    unfolding similar_users_def col by (simp only: sum.case eq)
  show "similar_users rec student_id k = top_k_others rec student_id k"
    unfolding su top_k_others_def col by (simp only: sum.case)
  have "student_id \<notin> fst ` set (nlargest k (filter (\<lambda>p. fst p \<noteq> student_id) ?s))"
    using nlargest_subset [of k "filter (\<lambda>p. fst p \<noteq> student_id) ?s"] by auto
  then show "\<exists>us. similar_users rec student_id k = Inr us \<and> student_id \<notin> set us"
    unfolding su by simp
qed

text \<open>
  Claim C5 at a failing input. \<open>ana\<close> and \<open>ben\<close> have the same ratings, so \<open>ana\<close> is
  as similar to \<open>ben\<close> as \<open>ben\<close> is, and \<open>ana\<close> comes first in the index: dropping the
  first of the \<open>k + 1\<close> largest entries drops \<open>ana\<close> and keeps \<open>ben\<close> among the
  neighbours of \<open>ben\<close>. The same happens to \<open>dee\<close>, whose self-similarity is 0.
\<close>

theorem similar_users_keep_self_on_tie:
  "df_cell (user_similarity example_recommender) ''ana'' ''ben'' = 1
   \<and> df_cell (user_similarity example_recommender) ''ben'' ''ben'' = 1
   \<and> similar_users example_recommender ''ben'' 10 = Inr [''ben'', ''cy'', ''dee'']
   \<and> top_k_others example_recommender ''ben'' 10 = Inr [''ana'', ''cy'', ''dee'']
   \<and> similar_users example_recommender ''ben'' 1 = Inr [''ben'']
   \<and> top_k_others example_recommender ''ben'' 1 = Inr [''ana'']
   \<and> similar_users example_recommender ''dee'' 10 = Inr [''ben'', ''cy'', ''dee'']"
  by (simp add: example_defs similar_users_def top_k_others_def getitem_column_def nlargest_def dict_get_def)

subsection \<open>The content scorer\<close>

lemma map_of_flat_scores:
  "map_of (flat_scores cids) c = (if c \<in> set cids then Some 0.5 else None)"
proof -
  have "map_of (rev (map (\<lambda>course_id. (course_id, 0.5::real)) cids)) c =
      (if c \<in> set cids then Some 0.5 else None)"
    by (induction cids) (auto simp: map_add_def split: option.splits)
  then show ?thesis
    by (simp add: flat_scores_def dict_of_pairs_def map_of_foldl_update)
qed

lemma keys_flat_scores: "fst ` set (flat_scores cids) = set cids"
  by (simp add: flat_scores_def dict_of_pairs_def keys_foldl_update image_image)

lemma distinct_flat_scores: "distinct (map fst (flat_scores cids))"
  by (simp add: flat_scores_def dict_of_pairs_def distinct_foldl_update)

lemma enrolled_indices_empty_iff:
  "filter (\<lambda>i. cids ! i \<in> set enrolled) [0..<length cids] = [] \<longleftrightarrow> set enrolled \<inter> set cids = {}"
proof -
  have "filter (\<lambda>i. cids ! i \<in> set enrolled) [0..<length cids] = [] \<longleftrightarrow>
      (\<forall>i < length cids. cids ! i \<notin> set enrolled)"
    by (auto simp: filter_empty_conv)
  also have "\<dots> \<longleftrightarrow> (\<forall>c \<in> set cids. c \<notin> set enrolled)"
    by (simp add: all_set_conv_all_nth)
  also have "\<dots> \<longleftrightarrow> set enrolled \<inter> set cids = {}"
    by auto
  finally show ?thesis .
qed

lemma keys_content_loop:
  "content_loop ps enrolled sims acc = Inr scores \<Longrightarrow>
     fst ` set scores = fst ` set acc \<union> (snd ` set ps - set enrolled)"
proof (induction ps arbitrary: acc)
  case Nil
  then show ?case by simp
next
  case (Cons p ps)
  obtain i c where p: "p = (i, c)" by (cases p)
  show ?case
  proof (cases "c \<in> set enrolled")
    case True
    with Cons p show ?thesis by auto
  next
    case False
    with Cons.prems p have lt: "i < length sims"
      and run: "content_loop ps enrolled sims (AList.update c (sims ! i) acc) = Inr scores"
      by (auto split: if_splits)
    from Cons.IH [OF run] False p show ?thesis
      by (auto simp: dom_update)
  qed
qed

lemma distinct_content_loop:
  "content_loop ps enrolled sims acc = Inr scores \<Longrightarrow> distinct (map fst acc) \<Longrightarrow>
     distinct (map fst scores)"
proof (induction ps arbitrary: acc)
  case Nil
  then show ?case by simp
next
  case (Cons p ps)
  obtain i c where p: "p = (i, c)" by (cases p)
  from Cons.prems p show ?case
    by (auto split: if_splits intro: Cons.IH simp: distinct_update)
qed

lemma content_loop_returns:
  "\<forall>p \<in> set ps. fst p < length sims \<Longrightarrow> \<exists>scores. content_loop ps enrolled sims acc = Inr scores"
proof (induction ps arbitrary: acc)
  case Nil
  then show ?case by simp
next
  case (Cons p ps)
  obtain i c where p: "p = (i, c)" by (cases p)
  from Cons.prems p Cons.IH show ?case
    by auto
qed

lemma content_based_cold_start:
  assumes "enrolled = [] \<or> set enrolled \<inter> set (course_ids (course_features rec)) = {}"
  shows "get_content_based_scores rec sid enrolled = Inr (flat_scores (course_ids (course_features rec)))"
  using assms by (auto simp: get_content_based_scores_def Let_def enrolled_indices_empty_iff)

lemma content_based_personalised_keys:
  assumes "enrolled \<noteq> []" "set enrolled \<inter> set (course_ids (course_features rec)) \<noteq> {}"
    and "get_content_based_scores rec sid enrolled = Inr scores"
  shows "fst ` set scores = set (course_ids (course_features rec)) - set enrolled"
    and "distinct (map fst scores)"
proof -
  let ?cids = "course_ids (course_features rec)"
  from assms obtain sims where
    run: "content_loop (zip [0..<length ?cids] ?cids) enrolled sims [] = Inr scores"
    by (auto simp: get_content_based_scores_def Let_def enrolled_indices_empty_iff split: if_splits)
  have "snd ` set (zip [0..<length ?cids] ?cids) = set ?cids"
    by (metis length_upt diff_zero map_snd_zip set_map)
  with keys_content_loop [OF run] show "fst ` set scores = set ?cids - set enrolled"
    by simp
  from distinct_content_loop [OF run] show "distinct (map fst scores)"
    by simp
qed

lemma content_based_returns:
  assumes "length (course_ids (course_features rec)) \<le> nrows (features_matrix (course_features rec))"
    and "0 < ncols (features_matrix (course_features rec))"
  shows "\<exists>scores. get_content_based_scores rec sid enrolled = Inr scores"
proof -
  let ?cids = "course_ids (course_features rec)"
  let ?m = "features_matrix (course_features rec)"
  have a: "\<not> list_ex (\<lambda>i. nrows ?m \<le> i) (filter (\<lambda>i. ?cids ! i \<in> set enrolled) [0..<length ?cids])"
    using assms(1) by (auto simp: list_ex_iff)
  have b: "\<exists>scores. content_loop (zip [0..<length ?cids] ?cids) enrolled
      (map f [0..<nrows ?m]) [] = Inr scores" for f
  proof (rule content_loop_returns)
    show "\<forall>p\<in>set (zip [0..<length ?cids] ?cids). fst p < length (map f [0..<nrows ?m])"
      using assms(1) by (auto dest!: set_zip_leftD)
  qed
  show ?thesis
    using a b assms(2) by (auto simp: get_content_based_scores_def Let_def)
qed

lemma content_based_never_enrolled:
  assumes "get_content_based_scores rec sid enrolled = Inr scores"
  shows "fst ` set scores \<inter> set enrolled = {}"
proof (cases "enrolled = [] \<or> set enrolled \<inter> set (course_ids (course_features rec)) = {}")
  case True
  from content_based_cold_start [OF True, of sid] assms
  have "scores = flat_scores (course_ids (course_features rec))" by simp
  with True show ?thesis by (auto simp: keys_flat_scores)
next
  case False
  then show ?thesis
    using content_based_personalised_keys(1) [OF _ _ assms] by auto
qed

lemmas content_defs =
  get_content_based_scores_def Let_def mean_axis0_def np_mean_def cosine_similarity_def
  normalize_row_def l2_norm_def row_def upt_conv_Cons flat_scores_def dict_of_pairs_def

lemma example_content_none:
  "get_content_based_scores example_recommender ''ana'' [] = Inr [(''c1'', 0.5), (''c2'', 0.5)]"
  by (simp add: example_defs content_defs)

lemma example_content_c9:
  "get_content_based_scores example_recommender ''ana'' [''c9''] = Inr [(''c1'', 0.5), (''c2'', 0.5)]"
  by (simp add: example_defs content_defs)

lemma example_content_c2:
  "get_content_based_scores example_recommender ''ana'' [''c2''] = Inr [(''c1'', 0)]"
  by (simp add: example_defs content_defs)

text \<open>
  Claim C7, as the code has it. When the enrolled list is empty or shares no identifier
  with the course identifiers of the feature table, the content scorer returns the
  mapping that gives 0.5 to every course of the table; no course of the table is enrolled
  then, so no enrolled course gets the 0.5. Otherwise, when it returns, the keys of the
  mapping are the course identifiers that are not enrolled; it returns when the feature
  matrix has a row for every identifier and at least one column. In both branches the
  keys are the identifiers of the table that are not enrolled, and an enrolled course has
  no entry.
\<close>

theorem content_scores_flat_or_enrolled_excluded:
  "(enrolled = [] \<or> set enrolled \<inter> set (course_ids (course_features rec)) = {} \<longrightarrow>
      (\<exists>scores. get_content_based_scores rec student_id enrolled = Inr scores
         \<and> fst ` set scores = set (course_ids (course_features rec))
         \<and> distinct (map fst scores)
         \<and> (\<forall>c \<in> set (course_ids (course_features rec)). map_of scores c = Some 0.5)))
   \<and> (enrolled \<noteq> [] \<and> set enrolled \<inter> set (course_ids (course_features rec)) \<noteq> {} \<longrightarrow>
        (\<forall>scores. get_content_based_scores rec student_id enrolled = Inr scores \<longrightarrow>
           fst ` set scores = set (course_ids (course_features rec)) - set enrolled
           \<and> distinct (map fst scores))
      \<and> (length (course_ids (course_features rec)) \<le> nrows (features_matrix (course_features rec))
           \<and> 0 < ncols (features_matrix (course_features rec)) \<longrightarrow>
           (\<exists>scores. get_content_based_scores rec student_id enrolled = Inr scores)))
   \<and> (\<forall>scores. get_content_based_scores rec student_id enrolled = Inr scores \<longrightarrow>
         fst ` set scores = set (course_ids (course_features rec)) - set enrolled
       \<and> (\<forall>c \<in> set enrolled. map_of scores c = None))"
proof -
  have branches:
    "(enrolled = [] \<or> set enrolled \<inter> set (course_ids (course_features rec)) = {} \<longrightarrow>
          (\<exists>scores. get_content_based_scores rec student_id enrolled = Inr scores
             \<and> fst ` set scores = set (course_ids (course_features rec))
             \<and> distinct (map fst scores)
             \<and> (\<forall>c \<in> set (course_ids (course_features rec)). map_of scores c = Some 0.5)))
       \<and> (enrolled \<noteq> [] \<and> set enrolled \<inter> set (course_ids (course_features rec)) \<noteq> {} \<longrightarrow>
            (\<forall>scores. get_content_based_scores rec student_id enrolled = Inr scores \<longrightarrow>
               fst ` set scores = set (course_ids (course_features rec)) - set enrolled
               \<and> distinct (map fst scores))
          \<and> (length (course_ids (course_features rec)) \<le> nrows (features_matrix (course_features rec))
               \<and> 0 < ncols (features_matrix (course_features rec)) \<longrightarrow>
               (\<exists>scores. get_content_based_scores rec student_id enrolled = Inr scores)))"
  proof (intro conjI impI allI)
    let ?cids = "course_ids (course_features rec)"
    assume cold: "enrolled = [] \<or> set enrolled \<inter> set ?cids = {}"
    have run: "get_content_based_scores rec student_id enrolled = Inr (flat_scores ?cids)"
      using cold by (rule content_based_cold_start)
    show "\<exists>scores. get_content_based_scores rec student_id enrolled = Inr scores
           \<and> fst ` set scores = set ?cids
           \<and> distinct (map fst scores)
           \<and> (\<forall>c \<in> set ?cids. map_of scores c = Some 0.5)"
    proof (intro exI conjI)
      show "get_content_based_scores rec student_id enrolled = Inr (flat_scores ?cids)"
        by (rule run)
      show "fst ` set (flat_scores ?cids) = set ?cids"
        by (rule keys_flat_scores)
      show "distinct (map fst (flat_scores ?cids))"
        by (rule distinct_flat_scores)
      show "\<forall>c \<in> set ?cids. map_of (flat_scores ?cids) c = Some 0.5"
        by (simp add: map_of_flat_scores)
    qed
  next
    fix scores
    assume warm: "enrolled \<noteq> [] \<and> set enrolled \<inter> set (course_ids (course_features rec)) \<noteq> {}"
      and run: "get_content_based_scores rec student_id enrolled = Inr scores"
    from warm have w1: "enrolled \<noteq> []"
      and w2: "set enrolled \<inter> set (course_ids (course_features rec)) \<noteq> {}"
      by simp_all
    show "fst ` set scores = set (course_ids (course_features rec)) - set enrolled"
      by (rule content_based_personalised_keys(1) [OF w1 w2 run])
    show "distinct (map fst scores)"
      by (rule content_based_personalised_keys(2) [OF w1 w2 run])
  next
    assume "length (course_ids (course_features rec)) \<le> nrows (features_matrix (course_features rec))
             \<and> 0 < ncols (features_matrix (course_features rec))"
    then have "length (course_ids (course_features rec)) \<le> nrows (features_matrix (course_features rec))"
      and "0 < ncols (features_matrix (course_features rec))"
      by simp_all
    then show "\<exists>scores. get_content_based_scores rec student_id enrolled = Inr scores"
      by (rule content_based_returns)
  qed
  have both: "(\<forall>scores. get_content_based_scores rec student_id enrolled = Inr scores \<longrightarrow>
           fst ` set scores = set (course_ids (course_features rec)) - set enrolled
         \<and> (\<forall>c \<in> set enrolled. map_of scores c = None))"
  proof (intro allI impI conjI ballI)
    fix scores c
    assume run: "get_content_based_scores rec student_id enrolled = Inr scores"
    from content_based_never_enrolled [OF run]
    have disj: "fst ` set scores \<inter> set enrolled = {}" .
    show "fst ` set scores = set (course_ids (course_features rec)) - set enrolled"
    proof (cases "enrolled = [] \<or> set enrolled \<inter> set (course_ids (course_features rec)) = {}")
      case True
      from content_based_cold_start [OF True, of student_id] run
      have "scores = flat_scores (course_ids (course_features rec))"
        by simp
      with True show ?thesis
        by (auto simp: keys_flat_scores)
    next
      case False
      then show ?thesis
        using content_based_personalised_keys(1) [OF _ _ run] by simp
    qed
    assume "c \<in> set enrolled"
    with disj have "c \<notin> fst ` set scores"
      by blast
    then show "map_of scores c = None"
      by (simp add: map_of_eq_None_iff)
  qed
  from branches [THEN conjunct1] branches [THEN conjunct2] both show ?thesis
    by (intro conjI)
qed

text \<open>
  The claim as written has the flat 0.5 given to the enrolled courses as well. Here the
  cold-start branch is taken for the enrolled course \<open>c9\<close>, which is not in the feature
  table, and \<open>c9\<close> gets no score.
\<close>

theorem content_scores_cold_start_enrolled_counterexample:
  "[''c9''] \<noteq> []
   \<and> set [''c9''] \<inter> set (course_ids (course_features example_recommender)) = {}
   \<and> get_content_based_scores example_recommender ''ana'' [''c9''] = Inr [(''c1'', 0.5), (''c2'', 0.5)]
   \<and> ''c9'' \<in> set [''c9'']
   \<and> map_of [(''c1'', 0.5::real), (''c2'', 0.5)] ''c9'' = None
   \<and> map_of [(''c1'', 0.5::real), (''c2'', 0.5)] ''c9'' \<noteq> Some 0.5"
proof -
  have a: "set [''c9''] \<inter> set (course_ids (course_features example_recommender)) = {}"
    by (simp add: example_defs)
  have b: "map_of [(''c1'', 0.5::real), (''c2'', 0.5)] ''c9'' = None"
    by simp
  from a b example_content_c9 show ?thesis
    by simp
qed

theorem content_scores_flat_or_enrolled_excluded_witness:
  "get_content_based_scores example_recommender ''ana'' [] = Inr [(''c1'', 0.5), (''c2'', 0.5)]
   \<and> get_content_based_scores example_recommender ''ana'' [''c9''] = Inr [(''c1'', 0.5), (''c2'', 0.5)]
   \<and> set [''c9''] \<inter> set (course_ids (course_features example_recommender)) = {}
   \<and> map_of [(''c1'', 0.5::real), (''c2'', 0.5)] ''c2'' = Some 0.5
   \<and> get_content_based_scores example_recommender ''ana'' [''c2''] = Inr [(''c1'', 0)]
   \<and> fst ` set [(''c1'', 0::real)] = set (course_ids (course_features example_recommender)) - set [''c2'']
   \<and> map_of [(''c1'', 0::real)] ''c2'' = None"
proof -
  note t = content_scores_flat_or_enrolled_excluded [where rec = example_recommender and student_id = "''ana''"]
  have ids: "course_ids (course_features example_recommender) = [''c1'', ''c2'']"
    by (simp add: example_defs)
  have "set [''c9''] \<inter> set (course_ids (course_features example_recommender)) = {}"
    by (simp add: ids)
  moreover have "map_of [(''c1'', 0.5::real), (''c2'', 0.5)] ''c2'' = Some 0.5"
    using t [where enrolled = "[]", THEN conjunct1] example_content_none
    by (simp add: ids)
  moreover have "fst ` set [(''c1'', 0::real)] =
      set (course_ids (course_features example_recommender)) - set [''c2'']"
    using t [where enrolled = "[''c2'']", THEN conjunct2] example_content_c2
    by (simp add: ids)
  moreover have "map_of [(''c1'', 0::real)] ''c2'' = None"
    by simp
  ultimately show ?thesis
    using example_content_none example_content_c9 example_content_c2 by blast
qed

subsection \<open>The hybrid recommender\<close>

lemma hybrid_loop_lookup:
  "map_of (hybrid_loop cf cb w1 w2 cs acc) c =
     (if c \<in> set cs
      then Some (hybrid_score w1 w2 (dict_get (map_of cf) c 0) (dict_get (map_of cb) c 0))
      else map_of acc c)"
  by (induction cs arbitrary: acc) (auto simp: Let_def update_conv')

lemma hybrid_loop_keys:
  "fst ` set (hybrid_loop cf cb w1 w2 cs acc) = fst ` set acc \<union> set cs"
  by (induction cs arbitrary: acc) (auto simp: Let_def dom_update)

lemma hybrid_loop_distinct:
  "distinct (map fst acc) \<Longrightarrow> distinct (map fst (hybrid_loop cf cb w1 w2 cs acc))"
  by (induction cs arbitrary: acc) (auto simp: Let_def distinct_update)

lemma hybrid_loop_length:
  "distinct cs \<Longrightarrow> length (hybrid_loop cf cb w1 w2 cs []) = length cs"
proof -
  assume d: "distinct cs"
  have "length (hybrid_loop cf cb w1 w2 cs []) = length (map fst (hybrid_loop cf cb w1 w2 cs []))"
    by simp
  also have "\<dots> = card (set (map fst (hybrid_loop cf cb w1 w2 cs [])))"
    by (rule distinct_card [symmetric]) (simp add: hybrid_loop_distinct)
  also have "\<dots> = card (set cs)"
    by (simp add: hybrid_loop_keys)
  also have "\<dots> = length cs"
    using d by (rule distinct_card)
  finally show ?thesis .
qed

lemma recommend_Inr:
  assumes "get_collaborative_scores rec sid default_k = Inr cf"
    and "get_content_based_scores rec sid enrolled = Inr cb"
  shows "recommend rec so sid enrolled n w1 w2 =
     Inr (py_slice_to (sort_key (\<lambda>x. - snd x)
            (hybrid_loop cf cb w1 w2 (so (remdups (map fst cf @ map fst cb))) [])) n)"
  using assms by (simp add: recommend_def)

lemma candidates_set:
  assumes "iteration_order so"
  shows "set (so (remdups (map fst cf @ map fst cb))) = fst ` set cf \<union> fst ` set cb"
    and "distinct (so (remdups (map fst cf @ map fst cb)))"
  using assms by (auto simp: iteration_order_def)

lemma hybrid_score_absent_content: "hybrid_score w1 w2 x 0 = w1 * (if 0 < x then x / 4 else 0)"
  by (simp add: hybrid_score_def)

lemma iteration_order_id: "iteration_order (\<lambda>xs. xs)"
  by (simp add: iteration_order_def)

lemmas recommend_defs = recommend_def default_k_def hybrid_score_def dict_get_def py_slice_to_def

lemma example_recommend_none:
  "recommend example_recommender (\<lambda>xs. xs) ''ana'' [] 10 0.6 0.4 = Inr [(''c2'', 0.725), (''c1'', 0.2)]"
  by (simp add: recommend_defs example_scores_ana example_content_none)

lemma example_recommend_c9:
  "recommend example_recommender (\<lambda>xs. xs) ''ana'' [''c9''] 10 0.6 0.4 = Inr [(''c2'', 0.725), (''c1'', 0.2)]"
  by (simp add: recommend_defs example_scores_ana example_content_c9)

lemma example_recommend_c2:
  "recommend example_recommender (\<lambda>xs. xs) ''ana'' [''c2''] 10 0.6 0.4 = Inr [(''c2'', 0.525), (''c1'', 0)]"
  by (simp add: recommend_defs example_scores_ana example_content_c2)

text \<open>
  Claim C6. For every course in the union of the keys of the collaborative and the
  content mapping, the hybrid score is \<open>cf_weight * (cf / 4 if 0 < cf else 0) +
  cb_weight * cb\<close>, a course missing from a mapping contributing 0 there; every pair
  that \<open>recommend\<close> returns is such a course with that score. The weights are arbitrary
  reals (nothing asks them to sum to 1); their defaults are 0.6 and 0.4.
\<close>

theorem hybrid_score_formula:
  assumes "get_collaborative_scores rec student_id default_k = Inr cf_scores"
    and "get_content_based_scores rec student_id enrolled = Inr cb_scores"
    and "iteration_order set_order"
  shows "(\<forall>c \<in> fst ` set cf_scores \<union> fst ` set cb_scores.
            map_of (hybrid_loop cf_scores cb_scores cf_weight cb_weight
                      (set_order (remdups (map fst cf_scores @ map fst cb_scores))) []) c =
              Some (cf_weight *
                      (if 0 < dict_get (map_of cf_scores) c 0
                       then dict_get (map_of cf_scores) c 0 / 4 else 0)
                    + cb_weight * dict_get (map_of cb_scores) c 0))
     \<and> (\<exists>recs. recommend rec set_order student_id enrolled n cf_weight cb_weight = Inr recs
           \<and> (\<forall>c score. (c, score) \<in> set recs \<longrightarrow>
                 c \<in> fst ` set cf_scores \<union> fst ` set cb_scores
               \<and> score = cf_weight *
                      (if 0 < dict_get (map_of cf_scores) c 0
                       then dict_get (map_of cf_scores) c 0 / 4 else 0)
                    + cb_weight * dict_get (map_of cb_scores) c 0))
     \<and> default_cf_weight = 0.6 \<and> default_cb_weight = 0.4"
proof (intro conjI ballI)
  let ?all = "set_order (remdups (map fst cf_scores @ map fst cb_scores))"
  let ?h = "hybrid_loop cf_scores cb_scores cf_weight cb_weight ?all []"
  let ?f = "\<lambda>c. cf_weight *
                      (if 0 < dict_get (map_of cf_scores) c 0
                       then dict_get (map_of cf_scores) c 0 / 4 else 0)
                    + cb_weight * dict_get (map_of cb_scores) c 0"
  have look: "map_of ?h c = (if c \<in> fst ` set cf_scores \<union> fst ` set cb_scores then Some (?f c) else None)" for c
    using candidates_set(1) [OF assms(3), of cf_scores cb_scores]
    by (simp add: hybrid_loop_lookup hybrid_score_def Let_def)
  show "map_of ?h c = Some (?f c)" if "c \<in> fst ` set cf_scores \<union> fst ` set cb_scores" for c
    using that look by simp
  have "\<forall>c score. (c, score) \<in> set (py_slice_to (sort_key (\<lambda>x. - snd x) ?h) n) \<longrightarrow>
      c \<in> fst ` set cf_scores \<union> fst ` set cb_scores \<and> score = ?f c"
  proof (intro allI impI)
    fix c score
    assume "(c, score) \<in> set (py_slice_to (sort_key (\<lambda>x. - snd x) ?h) n)"
    then have "(c, score) \<in> set ?h"
      using set_py_slice_to_subset by fastforce
    then have "map_of ?h c = Some score"
      by (simp add: hybrid_loop_distinct)
    with look [of c] show "c \<in> fst ` set cf_scores \<union> fst ` set cb_scores \<and> score = ?f c"
      by (auto split: if_splits)
  qed
  then show "\<exists>recs. recommend rec set_order student_id enrolled n cf_weight cb_weight = Inr recs
           \<and> (\<forall>c score. (c, score) \<in> set recs \<longrightarrow>
                 c \<in> fst ` set cf_scores \<union> fst ` set cb_scores \<and> score = ?f c)"
    unfolding recommend_Inr [OF assms(1,2)] by blast
  show "default_cf_weight = 0.6" "default_cb_weight = 0.4"
    by (simp_all add: default_cf_weight_def default_cb_weight_def)
qed

theorem hybrid_score_formula_witness:
  "iteration_order (\<lambda>xs. xs)
   \<and> get_collaborative_scores example_recommender ''ana'' default_k = Inr [(''c2'', 3.5)]
   \<and> get_content_based_scores example_recommender ''ana'' [] = Inr [(''c1'', 0.5), (''c2'', 0.5)]
   \<and> recommend example_recommender (\<lambda>xs. xs) ''ana'' [] 10 0.6 0.4 = Inr [(''c2'', 0.725), (''c1'', 0.2)]
   \<and> map_of (hybrid_loop [(''c2'', 3.5)] [(''c1'', 0.5), (''c2'', 0.5)] 0.6 0.4 [''c1'', ''c2''] []) ''c2''
       = Some (0.6 * (3.5 / 4) + 0.4 * 0.5)
   \<and> map_of (hybrid_loop [(''c2'', 3.5)] [(''c1'', 0.5), (''c2'', 0.5)] 2 3 [''c1'', ''c2''] []) ''c1''
       = Some (2 * 0 + 3 * 0.5)"
proof -
  have cf: "get_collaborative_scores example_recommender ''ana'' default_k = Inr [(''c2'', 3.5)]"
    by (simp add: default_k_def example_scores_ana)
  note t = hybrid_score_formula [OF cf example_content_none iteration_order_id]
  have c1: "''c1'' \<in> fst ` set [(''c2'', 3.5::real)] \<union> fst ` set [(''c1'', 0.5::real), (''c2'', 0.5)]"
    and c2: "''c2'' \<in> fst ` set [(''c2'', 3.5::real)] \<union> fst ` set [(''c1'', 0.5::real), (''c2'', 0.5)]"
    by simp_all
  have a: "map_of (hybrid_loop [(''c2'', 3.5)] [(''c1'', 0.5), (''c2'', 0.5)] 0.6 0.4 [''c1'', ''c2''] []) ''c2''
       = Some (0.6 * (3.5 / 4) + 0.4 * 0.5)"
    using bspec [OF t [where cf_weight = "0.6" and cb_weight = "0.4", THEN conjunct1] c2]
    by (simp add: dict_get_def)
  have b: "map_of (hybrid_loop [(''c2'', 3.5)] [(''c1'', 0.5), (''c2'', 0.5)] 2 3 [''c1'', ''c2''] []) ''c1''
       = Some (2 * 0 + 3 * 0.5)"
    using bspec [OF t [where cf_weight = 2 and cb_weight = 3, THEN conjunct1] c1]
    by (simp add: dict_get_def)
  from a b cf example_content_none example_recommend_none iteration_order_id
  show ?thesis
    by blast
qed

text \<open>
  Claim C10, as the code has it. The content mapping never has an enrolled course among
  its keys, in the cold-start branch or the other. \<open>recommend\<close> filters nothing: when
  \<open>n\<close> is at least the number of candidates, it returns every key of either mapping. An
  enrolled course that is returned is a column of the user-item matrix whose cell in the
  student's row is not positive, and its score is the collaborative part alone. Such
  inputs exist.
\<close>

theorem recommend_enrolled_only_from_collaborative:
  assumes "get_collaborative_scores rec student_id default_k = Inr cf_scores"
    and "get_content_based_scores rec student_id enrolled = Inr cb_scores"
    and "iteration_order set_order"
  shows "fst ` set cb_scores \<inter> set enrolled = {}
     \<and> fst ` set cf_scores =
          (if student_id \<in> set (df_index (user_item_matrix rec))
           then {c \<in> set (df_columns (user_item_matrix rec)).
                   \<not> 0 < df_cell (user_item_matrix rec) student_id c}
           else {})
     \<and> (\<exists>recs. recommend rec set_order student_id enrolled n cf_weight cb_weight = Inr recs
          \<and> (int (length (remdups (map fst cf_scores @ map fst cb_scores))) \<le> n \<longrightarrow>
                fst ` set recs = fst ` set cf_scores \<union> fst ` set cb_scores)
          \<and> (\<forall>c score. (c, score) \<in> set recs \<and> c \<in> set enrolled \<longrightarrow>
                student_id \<in> set (df_index (user_item_matrix rec))
              \<and> c \<in> set (df_columns (user_item_matrix rec))
              \<and> \<not> 0 < df_cell (user_item_matrix rec) student_id c
              \<and> score = cf_weight *
                   (if 0 < dict_get (map_of cf_scores) c 0
                    then dict_get (map_of cf_scores) c 0 / 4 else 0)))
     \<and> (\<exists>rec' set_order' student_id' enrolled' n' recs' c'.
           iteration_order set_order'
         \<and> recommend rec' set_order' student_id' enrolled' n' default_cf_weight default_cb_weight = Inr recs'
         \<and> c' \<in> set enrolled' \<and> c' \<in> fst ` set recs')"
proof (intro conjI)
  let ?all = "set_order (remdups (map fst cf_scores @ map fst cb_scores))"
  let ?h = "hybrid_loop cf_scores cb_scores cf_weight cb_weight ?all []"
  let ?recs = "py_slice_to (sort_key (\<lambda>x. - snd x) ?h) n"
  note cand = candidates_set [OF assms(3), of cf_scores cb_scores]
  show disj: "fst ` set cb_scores \<inter> set enrolled = {}"
    using assms(2) by (rule content_based_never_enrolled)
  show "fst ` set cf_scores =
          (if student_id \<in> set (df_index (user_item_matrix rec))
           then {c \<in> set (df_columns (user_item_matrix rec)).
                   \<not> 0 < df_cell (user_item_matrix rec) student_id c}
           else {})"
    using assms(1) by (rule get_collaborative_scores_keys)
  have run: "recommend rec set_order student_id enrolled n cf_weight cb_weight = Inr ?recs"
    by (rule recommend_Inr [OF assms(1,2)])
  have all: "fst ` set ?recs = fst ` set cf_scores \<union> fst ` set cb_scores"
    if "int (length (remdups (map fst cf_scores @ map fst cb_scores))) \<le> n"
  proof -
    have "length ?all = length (remdups (map fst cf_scores @ map fst cb_scores))"
      using cand by (metis distinct_card distinct_remdups set_remdups set_append set_map)
    with that have "int (length (sort_key (\<lambda>x. - snd x) ?h)) \<le> n"
      by (simp add: hybrid_loop_length [OF cand(2)])
    then have "?recs = sort_key (\<lambda>x. - snd x) ?h"
      by (rule py_slice_to_all)
    then show ?thesis
      by (simp add: hybrid_loop_keys cand(1))
  qed
  have enr: "student_id \<in> set (df_index (user_item_matrix rec))
              \<and> c \<in> set (df_columns (user_item_matrix rec))
              \<and> \<not> 0 < df_cell (user_item_matrix rec) student_id c
              \<and> score = cf_weight *
                   (if 0 < dict_get (map_of cf_scores) c 0
                    then dict_get (map_of cf_scores) c 0 / 4 else 0)"
    if "(c, score) \<in> set ?recs \<and> c \<in> set enrolled" for c score
  proof -
    from that have mem: "(c, score) \<in> set ?h" and c: "c \<in> set enrolled"
      using set_py_slice_to_subset by fastforce+
    from mem have look: "map_of ?h c = Some score"
      by (simp add: hybrid_loop_distinct)
    from mem have "c \<in> fst ` set ?h"
      by force
    then have "c \<in> fst ` set cf_scores \<union> fst ` set cb_scores"
      by (simp add: hybrid_loop_keys cand(1))
    with disj c have cf: "c \<in> fst ` set cf_scores" and ncb: "c \<notin> fst ` set cb_scores"
      by auto
    from ncb have "map_of cb_scores c = None"
      by (simp add: map_of_eq_None_iff)
    then have cb0: "dict_get (map_of cb_scores) c 0 = 0"
      by (simp add: dict_get_def)
    from look cf cand(1) have "score = hybrid_score cf_weight cb_weight (dict_get (map_of cf_scores) c 0) 0"
      by (simp add: hybrid_loop_lookup cb0)
    then have s: "score = cf_weight *
                   (if 0 < dict_get (map_of cf_scores) c 0
                    then dict_get (map_of cf_scores) c 0 / 4 else 0)"
      by (simp only: hybrid_score_absent_content)
    from cf get_collaborative_scores_keys [OF assms(1)]
    have "student_id \<in> set (df_index (user_item_matrix rec))
        \<and> c \<in> set (df_columns (user_item_matrix rec))
        \<and> \<not> 0 < df_cell (user_item_matrix rec) student_id c"
      by (auto split: if_splits)
    with s show ?thesis
      by blast
  qed
  from run all enr
  show "\<exists>recs. recommend rec set_order student_id enrolled n cf_weight cb_weight = Inr recs
          \<and> (int (length (remdups (map fst cf_scores @ map fst cb_scores))) \<le> n \<longrightarrow>
                fst ` set recs = fst ` set cf_scores \<union> fst ` set cb_scores)
          \<and> (\<forall>c score. (c, score) \<in> set recs \<and> c \<in> set enrolled \<longrightarrow>
                student_id \<in> set (df_index (user_item_matrix rec))
              \<and> c \<in> set (df_columns (user_item_matrix rec))
              \<and> \<not> 0 < df_cell (user_item_matrix rec) student_id c
              \<and> score = cf_weight *
                   (if 0 < dict_get (map_of cf_scores) c 0
                    then dict_get (map_of cf_scores) c 0 / 4 else 0))"
    by blast
  have "recommend example_recommender (\<lambda>xs. xs) ''ana'' [''c2''] 10 default_cf_weight default_cb_weight
      = Inr [(''c2'', 0.525), (''c1'', 0)]"
    using example_recommend_c2 by (simp add: default_cf_weight_def default_cb_weight_def)
  moreover have "''c2'' \<in> set [''c2'']" and "''c2'' \<in> fst ` set [(''c2'', 0.525::real), (''c1'', 0)]"
    by simp_all
  ultimately show "\<exists>rec' set_order' student_id' enrolled' n' recs' c'.
           iteration_order set_order'
         \<and> recommend rec' set_order' student_id' enrolled' n' default_cf_weight default_cb_weight = Inr recs'
         \<and> c' \<in> set enrolled' \<and> c' \<in> fst ` set recs'"
    using iteration_order_id by blast
qed

text \<open>
  The claim as written has the enrolled courses enter through the cold-start branch of
  the content scorer with score \<open>cb_weight * 0.5\<close>. Here that branch is taken (\<open>c9\<close> is
  not in the feature table), and \<open>c9\<close> is neither scored nor returned.
\<close>

theorem recommend_cold_start_enrolled_counterexample:
  "''c9'' \<notin> set (course_ids (course_features example_recommender))
   \<and> get_content_based_scores example_recommender ''ana'' [''c9''] = Inr [(''c1'', 0.5), (''c2'', 0.5)]
   \<and> map_of [(''c1'', 0.5::real), (''c2'', 0.5)] ''c9'' = None
   \<and> recommend example_recommender (\<lambda>xs. xs) ''ana'' [''c9''] 10 0.6 0.4
       = Inr [(''c2'', 0.725), (''c1'', 0.2)]
   \<and> ''c9'' \<notin> fst ` set [(''c2'', 0.725::real), (''c1'', 0.2)]"
proof -
  have a: "''c9'' \<notin> set (course_ids (course_features example_recommender))"
    by (simp add: example_defs)
  have b: "map_of [(''c1'', 0.5::real), (''c2'', 0.5)] ''c9'' = None"
    by simp
  have c: "''c9'' \<notin> fst ` set [(''c2'', 0.725::real), (''c1'', 0.2)]"
    by simp
  from a b c example_content_c9 example_recommend_c9 show ?thesis
    by blast
qed

theorem recommend_enrolled_only_from_collaborative_witness:
  "get_collaborative_scores example_recommender ''ana'' default_k = Inr [(''c2'', 3.5)]
   \<and> get_content_based_scores example_recommender ''ana'' [''c2''] = Inr [(''c1'', 0)]
   \<and> recommend example_recommender (\<lambda>xs. xs) ''ana'' [''c2''] 10 0.6 0.4 = Inr [(''c2'', 0.525), (''c1'', 0)]
   \<and> fst ` set [(''c1'', 0::real)] \<inter> set [''c2''] = {}
   \<and> df_cell (user_item_matrix example_recommender) ''ana'' ''c2'' = 0
   \<and> (0.525::real) = 0.6 * (3.5 / 4)"
proof -
  have cf: "get_collaborative_scores example_recommender ''ana'' default_k = Inr [(''c2'', 3.5)]"
    by (simp add: default_k_def example_scores_ana)
  note t = recommend_enrolled_only_from_collaborative [OF cf example_content_c2 iteration_order_id]
  have a: "fst ` set [(''c1'', 0::real)] \<inter> set [''c2''] = {}"
    using t [THEN conjunct1] .
  have b: "df_cell (user_item_matrix example_recommender) ''ana'' ''c2'' = 0"
    by (simp add: example_defs dict_get_def)
  have c: "(0.525::real) = 0.6 * (3.5 / 4)"
    by simp
  from a b c cf example_content_c2 example_recommend_c2 show ?thesis
    by blast
qed

subsection \<open>The popularity fallback\<close>

lemma course_popularity_alt:
  "course_popularity df = map (\<lambda>c. (c, positive_count df c)) (df_columns df)"
  by (simp add: course_popularity_def positive_count_def)

lemma popular_pairs:
  assumes "p \<in> set (nlargest n (course_popularity df))"
  shows "snd p = positive_count df (fst p) \<and> fst p \<in> set (df_columns df)"
  using nlargest_subset [of n "course_popularity df"] assms
  by (auto simp: course_popularity_alt)

lemma sorted_wrt_map_cong_set:
  assumes "sorted_wrt (\<lambda>p q. snd q \<le> snd p) ps" and "\<forall>p \<in> set ps. snd p = g (fst p)"
  shows "sorted_wrt (\<lambda>c d. g d \<le> g c) (map fst ps)"
  using assms by (induction ps) auto

text \<open>
  Claim C8, as the code has it. For \<open>n \<ge> 0\<close> the popularity fallback returns at most
  \<open>n\<close> course columns, ordered by their number of positive cells, descending but not
  strictly (equal counts may be neighbours); every course left out has a count no larger
  than any course returned. When the matrix has no negative cell the positive cells of a
  column are its non-zero cells.
\<close>

theorem popular_courses_ranked_by_positive_count:
  "(0 \<le> n \<longrightarrow> int (length (get_popular_courses rec n)) \<le> n)
   \<and> set (get_popular_courses rec n) \<subseteq> set (df_columns (user_item_matrix rec))
   \<and> sorted_wrt (\<lambda>c d. positive_count (user_item_matrix rec) d \<le> positive_count (user_item_matrix rec) c)
        (get_popular_courses rec n)
   \<and> (\<forall>c \<in> set (get_popular_courses rec n).
        \<forall>d \<in> set (df_columns (user_item_matrix rec)) - set (get_popular_courses rec n).
          positive_count (user_item_matrix rec) d \<le> positive_count (user_item_matrix rec) c)
   \<and> ((\<forall>r \<in> set (df_index (user_item_matrix rec)).
         \<forall>c \<in> set (df_columns (user_item_matrix rec)). 0 \<le> df_cell (user_item_matrix rec) r c)
        \<longrightarrow> (\<forall>c \<in> set (df_columns (user_item_matrix rec)).
               positive_count (user_item_matrix rec) c = nonzero_count (user_item_matrix rec) c))"
proof (intro conjI impI ballI)
  let ?df = "user_item_matrix rec"
  let ?top = "nlargest n (course_popularity ?df)"
  have res: "get_popular_courses rec n = map fst ?top"
    by (simp add: get_popular_courses_def)
  show "int (length (get_popular_courses rec n)) \<le> n" if "0 \<le> n"
    using that length_nlargest [of n "course_popularity ?df"] by (simp add: res)
  show "set (get_popular_courses rec n) \<subseteq> set (df_columns ?df)"
    using popular_pairs [of _ n ?df] by (auto simp: res)
  show "sorted_wrt (\<lambda>c d. positive_count ?df d \<le> positive_count ?df c) (get_popular_courses rec n)"
    unfolding res
    by (rule sorted_wrt_map_cong_set [OF nlargest_descending]) (simp add: popular_pairs)
  show "positive_count ?df d \<le> positive_count ?df c"
    if c: "c \<in> set (get_popular_courses rec n)"
      and d: "d \<in> set (df_columns ?df) - set (get_popular_courses rec n)" for c d
  proof -
    from c obtain p where p: "p \<in> set ?top" "fst p = c"
      by (auto simp: res)
    from d have q: "(d, positive_count ?df d) \<in> set (course_popularity ?df)"
      by (auto simp: course_popularity_alt)
    from d have "(d, positive_count ?df d) \<notin> set ?top"
      by (force simp: res)
    from nlargest_dominates_rest [OF p(1) q this] popular_pairs [OF p(1)] p(2)
    show ?thesis by simp
  qed
  show "positive_count ?df c = nonzero_count ?df c"
    if nn: "\<forall>r \<in> set (df_index ?df). \<forall>c \<in> set (df_columns ?df). 0 \<le> df_cell ?df r c"
      and c: "c \<in> set (df_columns ?df)" for c
  proof -
    have "filter (\<lambda>r. 0 < df_cell ?df r c) (df_index ?df) = filter (\<lambda>r. df_cell ?df r c \<noteq> 0) (df_index ?df)"
      using nn c by (intro filter_cong) (auto simp: order_less_le)
    then show ?thesis
      by (simp add: positive_count_def nonzero_count_def)
  qed
qed

text \<open>
  The claim as written fails twice: two courses with equal counts are returned one after
  the other, so the order is not strict; and a column with negative cells has a larger
  non-zero count than the course ranked before it.
\<close>

theorem popular_courses_order_counterexample:
  "get_popular_courses (example_recommender \<lparr> user_item_matrix := tied_ratings \<rparr>) 2 = [''c1'', ''c2'']
   \<and> nonzero_count tied_ratings ''c1'' = 1 \<and> nonzero_count tied_ratings ''c2'' = 1
   \<and> \<not> sorted_wrt (\<lambda>c d. nonzero_count tied_ratings d < nonzero_count tied_ratings c) [''c1'', ''c2'']
   \<and> get_popular_courses (example_recommender \<lparr> user_item_matrix := signed_ratings \<rparr>) 2 = [''c2'', ''c1'']
   \<and> nonzero_count signed_ratings ''c2'' = 1 \<and> nonzero_count signed_ratings ''c1'' = 2
   \<and> \<not> sorted_wrt (\<lambda>c d. nonzero_count signed_ratings d \<le> nonzero_count signed_ratings c) [''c2'', ''c1'']"
  by (simp add: get_popular_courses_def course_popularity_def nlargest_def nonzero_count_def
      tied_ratings_def signed_ratings_def)

theorem popular_courses_ranked_by_positive_count_witness:
  "get_popular_courses example_recommender 1 = [''c1'']
   \<and> get_popular_courses example_recommender 5 = [''c1'', ''c2'']
   \<and> positive_count (user_item_matrix example_recommender) ''c1'' = 3
   \<and> positive_count (user_item_matrix example_recommender) ''c2'' = 1
   \<and> nonzero_count (user_item_matrix example_recommender) ''c2'' = 1
   \<and> get_popular_courses (example_recommender \<lparr> user_item_matrix := tied_ratings \<rparr>) 1 = [''c1'']"
proof -
  have a: "get_popular_courses example_recommender 1 = [''c1'']"
    and b: "get_popular_courses example_recommender 5 = [''c1'', ''c2'']"
    and c: "get_popular_courses (example_recommender \<lparr> user_item_matrix := tied_ratings \<rparr>) 1 = [''c1'']"
    by (simp_all add: get_popular_courses_def course_popularity_def nlargest_def
        example_defs dict_get_def tied_ratings_def)
  have d: "positive_count (user_item_matrix example_recommender) ''c1'' = 3"
    "positive_count (user_item_matrix example_recommender) ''c2'' = 1"
    "nonzero_count (user_item_matrix example_recommender) ''c2'' = 1"
    by (simp_all add: positive_count_def nonzero_count_def example_defs dict_get_def)
  show ?thesis
    using popular_courses_ranked_by_positive_count [of 1 example_recommender]
      popular_courses_ranked_by_positive_count [of 5 example_recommender] a b c d
    by simp
qed

end
